theory Spec2Isabelle
  imports Complex_Main "HOL-Library.Sublist"
begin

section \<open>Batch subtitle generation (cmd.py): a shallow embedding\<close>

text \<open>
  The program converts each input media file to a temporary wav file, runs a speech
  recogniser over it, filters and formats the recognised segments and writes an SRT
  file next to the input. The embedding follows \<^verbatim>\<open>src/cmd.py\<close> function by
  function. External collaborators (configuration loading, the recogniser, ffmpeg, the
  temporary-file allocator, the opening of the output file) are fields of an
  environment record; each may raise.
\<close>

subsection \<open>Python strings\<close>

text \<open>
  A Python \<^verbatim>\<open>str\<close> is a sequence of Unicode code points, so a string is a list of
  natural numbers. \<open>ustr\<close> reads an ASCII literal.
\<close>

type_synonym pystr = "nat list"

definition ustr :: "string \<Rightarrow> pystr" where
  "ustr s = map of_char s"

text \<open>
  \<^verbatim>\<open>str.isspace\<close>, which is also what \<^verbatim>\<open>str.strip()\<close> removes and what \<^verbatim>\<open>\s\<close>
  matches in a \<^verbatim>\<open>str\<close> pattern.
\<close>

definition uni_space :: "nat \<Rightarrow> bool" where
  "uni_space c =
     ((0x09 \<le> c \<and> c \<le> 0x0D) \<or> (0x1C \<le> c \<and> c \<le> 0x20) \<or> c = 0x85 \<or> c = 0xA0
      \<or> c = 0x1680 \<or> (0x2000 \<le> c \<and> c \<le> 0x200A) \<or> c = 0x2028 \<or> c = 0x2029
      \<or> c = 0x202F \<or> c = 0x205F \<or> c = 0x3000)"

text \<open>
  \<^verbatim>\<open>\d\<close> in a \<^verbatim>\<open>str\<close> pattern matches every Unicode decimal digit, not only
  \<^verbatim>\<open>0-9\<close>. The decimal digits come in runs of ten; the list holds the code point of
  the zero of each run (Unicode 14.0, the table of CPython 3.11).
\<close>

definition decimal_zeros :: "nat list" where
  "decimal_zeros =
     [0x30, 0x660, 0x6F0, 0x7C0, 0x966, 0x9E6, 0xA66, 0xAE6, 0xB66, 0xBE6, 0xC66, 0xCE6,
      0xD66, 0xDE6, 0xE50, 0xED0, 0xF20, 0x1040, 0x1090, 0x17E0, 0x1810, 0x1946, 0x19D0,
      0x1A80, 0x1A90, 0x1B50, 0x1BB0, 0x1C40, 0x1C50, 0xA620, 0xA8D0, 0xA900, 0xA9D0,
      0xA9F0, 0xAA50, 0xABF0, 0xFF10, 0x104A0, 0x10D30, 0x11066, 0x110F0, 0x11136,
      0x111D0, 0x112F0, 0x11450, 0x114D0, 0x11650, 0x116C0, 0x11730, 0x118E0, 0x11950,
      0x11C50, 0x11D50, 0x11DA0, 0x16A60, 0x16AC0, 0x16B50, 0x1D7CE, 0x1D7D8, 0x1D7E2,
      0x1D7EC, 0x1D7F6, 0x1E140, 0x1E2F0, 0x1E950, 0x1FBF0]"

definition uni_decimal :: "nat \<Rightarrow> bool" where
  "uni_decimal c = list_ex (\<lambda>z. z \<le> c \<and> c < z + 10) decimal_zeros"

text \<open>\<^verbatim>\<open>s.strip()\<close>: leading and trailing whitespace removed.\<close>

definition strip :: "pystr \<Rightarrow> pystr" where
  "strip t = rev (dropWhile uni_space (rev (dropWhile uni_space t)))"

text \<open>
  \<^verbatim>\<open>s.replace(old, new)\<close>: the occurrences of \<open>old\<close> are replaced from left to
  right without overlap; a match at the head of \<open>c # cs\<close> consumes \<open>length old\<close>
  characters, that is \<open>c\<close> and \<open>length old - 1\<close> characters of \<open>cs\<close>.
\<close>

fun str_replace :: "pystr \<Rightarrow> pystr \<Rightarrow> pystr \<Rightarrow> pystr" where
  "str_replace old new [] = (if old = [] then new else [])"
| "str_replace old new (c # cs) =
     (if old = [] then new @ c # str_replace old new cs
      else if prefix old (c # cs) then new @ str_replace old new (drop (length old - 1) cs)
      else c # str_replace old new cs)"

text \<open>
  \<^verbatim>\<open>re.sub(r'&#\d+;', '', text)\<close>. \<open>entity_len t\<close> is the length of the match of
  \<^verbatim>\<open>&#\d+;\<close> at the head of \<open>t\<close>, if there is one: the two characters \<^verbatim>\<open>&#\<close>, the
  longest run of decimal digits (at least one; giving digits back cannot help, since
  \<^verbatim>\<open>;\<close> is not a digit) and \<^verbatim>\<open>;\<close>. The scan deletes each match and resumes behind
  it; the text is scanned once.
\<close>

definition entity_len :: "pystr \<Rightarrow> nat option" where
  "entity_len t =
     (case t of
        a # b # r \<Rightarrow>
          if a = 38 \<and> b = 35 then
            (let n = length (takeWhile uni_decimal r)
             in if 0 < n \<and> n < length r \<and> r ! n = 59 then Some (n + 3) else None)
          else None
      | _ \<Rightarrow> None)"

fun re_sub_entity :: "pystr \<Rightarrow> pystr" where
  "re_sub_entity [] = []"
| "re_sub_entity (c # cs) =
     (case entity_len (c # cs) of
        Some n \<Rightarrow> re_sub_entity (drop (n - 1) cs)
      | None \<Rightarrow> c # re_sub_entity cs)"

text \<open>
  The character class of the pattern at line 99 of cmd.py, in the order of the source:
  sixteen CJK punctuation marks, then ASCII punctuation, \<^verbatim>\<open>\s\<close> and \<^verbatim>\<open>\d\<close>.
\<close>

definition noise_chars :: "nat list" where
  "noise_chars =
     [0xFF0C, 0x3002, 0x3001, 0xFF1F, 0x2018, 0x2019, 0x201C, 0x201D, 0xFF1B, 0xFF1A,
      0xFF08, 0xFF5B, 0xFF5D, 0x3010, 0x3011, 0xFF09,
      0x3A, 0x3B, 0x22, 0x27, 0x20, 0x60, 0x21, 0x40, 0x23, 0x24, 0x25, 0x5E, 0x26, 0x2A,
      0x28, 0x29, 0x5F, 0x2B, 0x3D, 0x2E, 0x2C, 0x3F, 0x2F, 0x5C, 0x2D]"

definition noise_class :: "nat \<Rightarrow> bool" where
  "noise_class c = (c \<in> set noise_chars \<or> uni_space c \<or> uni_decimal c)"

text \<open>
  \<^verbatim>\<open>re.match(r'^[...]*$', text)\<close>. The starred class may stop after any number
  \<open>k\<close> of class characters, up to the longest run; \<^verbatim>\<open>$\<close> (no MULTILINE flag) holds
  at the end of the string and just before a newline that ends the string.
\<close>

definition at_dollar :: "pystr \<Rightarrow> bool" where
  "at_dollar r = (r = [] \<or> r = [10])"

definition re_match_noise :: "pystr \<Rightarrow> bool" where
  "re_match_noise t =
     list_ex (\<lambda>k. at_dollar (drop k t)) [0..<Suc (length (takeWhile noise_class t))]"

text \<open>\<^verbatim>\<open>str(n)\<close> for a non-negative integer, \<^verbatim>\<open>sep.join(xs)\<close>.\<close>

fun str_nat :: "nat \<Rightarrow> pystr" where
  "str_nat n = (if n < 10 then [48 + n] else str_nat (n div 10) @ [48 + n mod 10])"

declare str_nat.simps [simp del]

fun join :: "pystr \<Rightarrow> pystr list \<Rightarrow> pystr" where
  "join sep [] = []"
| "join sep [x] = x"
| "join sep (x # y # ys) = x @ sep @ join sep (y # ys)"

text \<open>
  \<^verbatim>\<open>os.path.splitext(p)[0]\<close> (posixpath): the extension starts at the last dot,
  provided the dot comes after the last slash and some character of the file name before
  it is not a dot.
\<close>

definition rfind :: "nat \<Rightarrow> pystr \<Rightarrow> int" where
  "rfind c p =
     (if c \<in> set p then int (length p) - 1 - int (length (takeWhile (\<lambda>x. x \<noteq> c) (rev p)))
      else - 1)"

definition splitext_root :: "pystr \<Rightarrow> pystr" where
  "splitext_root p =
     (let sepIndex = rfind 47 p; dotIndex = rfind 46 p
      in if dotIndex > sepIndex \<and>
            list_ex (\<lambda>x. x \<noteq> 46) (take (nat (dotIndex - (sepIndex + 1))) (drop (nat (sepIndex + 1)) p))
         then take (nat dotIndex) p else p)"

subsection \<open>Timestamps\<close>

definition zfill :: "nat \<Rightarrow> pystr \<Rightarrow> pystr" where
  "zfill w s = replicate (w - length s) 48 @ s"

text \<open>
  Modelled from the spec: \<^verbatim>\<open>stslib.tool.ms_to_time_string\<close> is not among the sources.
  The spec gives its result as hours:minutes:seconds,milliseconds, written
  \<^verbatim>\<open>HH:MM:SS,mmm\<close>, with a three-digit zero-padded millisecond field. The spec speaks
  of non-negative times only; a negative argument is read as 0 here.
\<close>

definition ms_to_time_string :: "int \<Rightarrow> pystr" where
  "ms_to_time_string ms =
     (let n = nat ms
      in zfill 2 (str_nat (n div 3600000)) @ [58] @ zfill 2 (str_nat (n div 60000 mod 60)) @ [58]
         @ zfill 2 (str_nat (n div 1000 mod 60)) @ [44] @ zfill 3 (str_nat (n mod 1000)))"

subsection \<open>Exceptions, effects, collaborators\<close>

text \<open>
  The exceptions of the model are those derived from \<^verbatim>\<open>Exception\<close>, the ones the
  handler of \<open>process_file\<close> intercepts: the division by zero of the progress
  computation, the \<^verbatim>\<open>RuntimeError\<close> of \<open>convert_to_wav\<close>, and whatever a collaborator
  raises (with its message); \<^verbatim>\<open>int()\<close> raises \<^verbatim>\<open>ValueError\<close> on a NaN and
  \<^verbatim>\<open>OverflowError\<close> on an infinity.
\<close>

datatype exn =
    ZeroDivisionError
  | RuntimeError pystr
  | ValueError pystr
  | OverflowError pystr
  | CollaboratorError pystr
  | OSError pystr

subsection \<open>Python floats\<close>

text \<open>
  A Python float is an IEEE 754 binary64 number: a NaN, an infinity, or a finite number
  \<open>m * 2 ^ e\<close> with integers \<open>m\<close> and \<open>e\<close>, written \<open>Finite m e\<close>. A double has
  such a form with \<open>\<bar>m\<bar> \<le> 2 ^ 53\<close>, \<open>- 1074 \<le> e\<close> and a value below \<open>2 ^ 1024\<close>. The
  sign of a zero is not kept: none of the operations used by the program depends on it.
\<close>

datatype pyfloat = Finite int int | PosInf | NegInf | NaN

definition pow2 :: "int \<Rightarrow> rat" where
  "pow2 e = (if 0 \<le> e then 2 ^ nat e else 1 / 2 ^ nat (- e))"

definition dyadic :: "int \<Rightarrow> int \<Rightarrow> rat" where
  "dyadic m e = of_int m * pow2 e"

text \<open>\<^verbatim>\<open>n.bit_length()\<close>: the number of binary digits of \<open>n\<close>.\<close>

fun bit_length :: "nat \<Rightarrow> nat" where
  "bit_length n = (if n = 0 then 0 else Suc (bit_length (n div 2)))"

declare bit_length.simps [simp del]

text \<open>
  Rounding to nearest, ties to even. \<open>round_half_even m k\<close> is \<open>m / 2 ^ k\<close> rounded to
  an integer. \<open>round_to_double m e\<close> is the double nearest to the exact number
  \<open>m * 2 ^ e\<close>: the \<open>k\<close> low bits that do not fit into 53 bits of mantissa, or that lie
  below the smallest subnormal \<open>2 ^ - 1074\<close>, are rounded away; a result of magnitude
  \<open>2 ^ 1024\<close> or more is an infinity.
\<close>

definition round_half_even :: "int \<Rightarrow> nat \<Rightarrow> int" where
  "round_half_even m k =
     (let q = m div 2 ^ k; r = m mod 2 ^ k
      in if 2 ^ k < 2 * r \<or> (2 * r = 2 ^ k \<and> odd q) then q + 1 else q)"

definition round_to_double :: "int \<Rightarrow> int \<Rightarrow> pyfloat" where
  "round_to_double m e =
     (let k = nat (max (int (bit_length (nat \<bar>m\<bar>)) - 53) (- 1074 - e));
          m' = round_half_even m k;
          e' = e + int k
      in if 1024 < int (bit_length (nat \<bar>m'\<bar>)) + e' then (if m < 0 then NegInf else PosInf)
         else Finite m' e')"

fun fsign :: "pyfloat \<Rightarrow> int" where
  "fsign (Finite m e) = sgn m"
| "fsign PosInf = 1"
| "fsign NegInf = - 1"
| "fsign NaN = 0"

text \<open>
  \<^verbatim>\<open>x * y\<close> on floats: the exact product of two finite numbers, rounded once; it
  never raises.
\<close>

fun fmul :: "pyfloat \<Rightarrow> pyfloat \<Rightarrow> pyfloat" where
  "fmul NaN y = NaN"
| "fmul x NaN = NaN"
| "fmul (Finite m1 e1) (Finite m2 e2) = round_to_double (m1 * m2) (e1 + e2)"
| "fmul x y =
     (if fsign x * fsign y = 0 then NaN else if 0 < fsign x * fsign y then PosInf else NegInf)"

definition is_zero :: "pyfloat \<Rightarrow> bool" where
  "is_zero x = (case x of Finite m e \<Rightarrow> m = 0 | _ \<Rightarrow> False)"

text \<open>
  \<^verbatim>\<open>int(x)\<close> on a float truncates towards zero and raises on a NaN or an infinity.
\<close>

definition py_int :: "pyfloat \<Rightarrow> exn + int" where
  "py_int x =
     (case x of
        Finite m e \<Rightarrow> Inr (if 0 \<le> e then m * 2 ^ nat e else sgn m * (\<bar>m\<bar> div 2 ^ nat (- e)))
      | NaN \<Rightarrow> Inl (ValueError (ustr ''cannot convert float NaN to integer''))
      | _ \<Rightarrow> Inl (OverflowError (ustr ''cannot convert float infinity to integer'')))"

text \<open>
  \<^verbatim>\<open>int(x * 1000)\<close> of lines 94 and 95; the integer 1000 becomes the float 1000.0.
\<close>

definition to_ms :: "pyfloat \<Rightarrow> exn + int" where
  "to_ms x = py_int (fmul x (Finite 1000 0))"

text \<open>
  What the program does to the outside, in order: log records (with their arguments, not
  their rendered text; the progress record carries the end time and the total duration
  whose quotient the message shows), the usage message, and the creation, the opening
  for writing (which creates or truncates), the writing and the removal of files.
\<close>

datatype event =
    Log_processing pystr
  | Log_progress pyfloat pyfloat pystr
  | Log_saved pystr
  | Log_no_valid_segments pystr
  | Log_error pystr exn
  | Log_deleted pystr
  | Print_usage
  | File_created pystr
  | File_opened pystr
  | File_written pystr pystr
  | File_removed pystr

text \<open>
  The file system is the set of the paths that exist. \<^verbatim>\<open>os.remove\<close> is only called on
  a path that \<^verbatim>\<open>os.path.exists\<close> has just found, and is taken to succeed there.
\<close>

record world =
  files :: "pystr set"
  trace :: "event list"

definition emit :: "event \<Rightarrow> world \<Rightarrow> world" where
  "emit e w = w\<lparr>trace := trace w @ [e]\<rparr>"

definition create_file :: "pystr \<Rightarrow> world \<Rightarrow> world" where
  "create_file p w = emit (File_created p) (w\<lparr>files := insert p (files w)\<rparr>)"

definition open_file :: "pystr \<Rightarrow> world \<Rightarrow> world" where
  "open_file p w = emit (File_opened p) (w\<lparr>files := insert p (files w)\<rparr>)"

definition write_file :: "pystr \<Rightarrow> pystr \<Rightarrow> world \<Rightarrow> world" where
  "write_file p content w = emit (File_written p content) (w\<lparr>files := insert p (files w)\<rparr>)"

definition os_remove :: "pystr \<Rightarrow> world \<Rightarrow> world" where
  "os_remove p w = emit (File_removed p) (w\<lparr>files := files w - {p}\<rparr>)"

record segment =
  seg_start :: pyfloat
  seg_end :: pyfloat
  seg_text :: pystr

text \<open>
  The recogniser returns a generator: it yields segments one at a time and may raise in
  the middle.
\<close>

datatype 'a gen = Stop | Yield 'a "'a gen" | Raise exn

datatype cfgval = CInt int | CBool bool | CStr pystr

record model_args =
  model_size_or_path :: pystr
  device :: "cfgval option"
  compute_type :: "cfgval option"
  download_root :: pystr
  local_files_only :: bool

record transcribe_kwargs =
  beam_size :: "cfgval option"
  best_of :: "cfgval option"
  condition_on_previous_text :: "cfgval option"
  vad_filter :: "cfgval option"
  language :: "pystr option"
  initial_prompt :: "cfgval option"

type_synonym model = "pystr \<Rightarrow> transcribe_kwargs \<Rightarrow> exn + (segment gen \<times> pyfloat)"

text \<open>
  The collaborators: \<^verbatim>\<open>cfg.parse_ini()\<close>, \<^verbatim>\<open>cfg.ROOT_DIR\<close>, the constructor
  \<^verbatim>\<open>WhisperModel(...)\<close> (the model it returns is its \<^verbatim>\<open>transcribe\<close> method),
  \<^verbatim>\<open>tempfile.NamedTemporaryFile\<close> (the name it picks, given the existing paths),
  \<^verbatim>\<open>tool.runffmpeg\<close> (its answer, \<^verbatim>\<open>ok\<close> on success), \<^verbatim>\<open>open(srt_file, 'w')\<close>
  (whether it raises; when it does not, the file has been created or truncated) and
  \<^verbatim>\<open>file.write(...)\<close> with the closing of the file (whether that raises, the file
  being already there).
\<close>

record env =
  parse_ini :: "exn + (pystr \<rightharpoonup> cfgval)"
  root_dir :: pystr
  whisper_model :: "model_args \<Rightarrow> exn + model"
  named_temporary_file :: "pystr set \<Rightarrow> exn + pystr"
  runffmpeg :: "pystr list \<Rightarrow> exn + pystr"
  open_write :: "pystr \<Rightarrow> exn option"
  file_write :: "pystr \<Rightarrow> pystr \<Rightarrow> exn option"

subsection \<open>write_srt\<close>

definition segment_text :: "segment \<Rightarrow> pystr" where
  "segment_text seg = re_sub_entity (str_replace (ustr ''&#39;'') [39] (strip (seg_text seg)))"

definition keep_text :: "pystr \<Rightarrow> bool" where
  "keep_text t = (t \<noteq> [] \<and> \<not> re_match_noise t)"

definition srt_block :: "nat \<Rightarrow> pystr \<Rightarrow> pystr \<Rightarrow> pystr \<Rightarrow> pystr" where
  "srt_block n startTime endTime t =
     str_nat n @ [10] @ startTime @ ustr '' --> '' @ endTime @ [10] @ t @ [10]"

text \<open>
  The loop of \<open>write_srt\<close> over the generator; \<open>srt_content\<close> is the list built so
  far. The division by a zero float raises, whatever the dividend; otherwise the
  quotient is only shown in the log. Then the two times are converted, which may raise.
\<close>

fun srt_loop ::
  "pystr \<Rightarrow> pyfloat \<Rightarrow> segment gen \<Rightarrow> pystr list \<Rightarrow> world \<Rightarrow> (exn + pystr list) \<times> world" where
  "srt_loop original_filename total_duration Stop srt_content w = (Inr srt_content, w)"
| "srt_loop original_filename total_duration (Raise e) srt_content w = (Inl e, w)"
| "srt_loop original_filename total_duration (Yield seg rest) srt_content w =
     (if is_zero total_duration then (Inl ZeroDivisionError, w)
      else
        let w1 = emit (Log_progress (seg_end seg) total_duration original_filename) w
        in case to_ms (seg_start seg) of
             Inl x \<Rightarrow> (Inl x, w1)
           | Inr ms_start \<Rightarrow>
               (case to_ms (seg_end seg) of
                  Inl x \<Rightarrow> (Inl x, w1)
                | Inr ms_end \<Rightarrow>
                    let startTime = ms_to_time_string ms_start;
                        endTime = ms_to_time_string ms_end;
                        t = segment_text seg
                    in if keep_text t
                       then srt_loop original_filename total_duration rest
                              (srt_content @ [srt_block (length srt_content + 1) startTime endTime t])
                              w1
                       else srt_loop original_filename total_duration rest srt_content w1))"

text \<open>
  After the loop: \<^verbatim>\<open>open(srt_file, 'w')\<close> may raise, leaving things as they were;
  once it has returned, the file exists, created or truncated; the single
  \<^verbatim>\<open>file.write\<close> of the joined blocks (with the closing of the file) may raise too,
  and then the file stays, with what had reached it.
\<close>

definition write_srt ::
  "env \<Rightarrow> segment gen \<Rightarrow> pystr \<Rightarrow> pyfloat \<Rightarrow> world \<Rightarrow> (exn + unit) \<times> world" where
  "write_srt e segments original_filename total_duration w =
     (case srt_loop original_filename total_duration segments [] w of
        (Inl x, w1) \<Rightarrow> (Inl x, w1)
      | (Inr srt_content, w1) \<Rightarrow>
          if srt_content \<noteq> [] then
            (let srt_file = splitext_root original_filename @ ustr ''.srt''
             in case open_write e srt_file of
                  Some x \<Rightarrow> (Inl x, w1)
                | None \<Rightarrow>
                    (let w2 = open_file srt_file w1
                     in case file_write e srt_file (join [10] srt_content) of
                          Some x \<Rightarrow> (Inl x, w2)
                        | None \<Rightarrow>
                            (Inr (), emit (Log_saved srt_file)
                                       (write_file srt_file (join [10] srt_content) w2))))
          else (Inr (), emit (Log_no_valid_segments original_filename) w1))"

subsection \<open>convert_to_wav\<close>

text \<open>
  \<^verbatim>\<open>NamedTemporaryFile(suffix=".wav", delete=False)\<close> creates the file and leaves it
  on disk when the \<^verbatim>\<open>with\<close> block closes it. (The \<open>wav_file\<close> path computed from
  \<^verbatim>\<open>cfg.TMP_DIR\<close> in the source is never used.)
\<close>

definition convert_to_wav :: "env \<Rightarrow> pystr \<Rightarrow> world \<Rightarrow> (exn + pystr) \<times> world" where
  "convert_to_wav e input_file w =
     (case named_temporary_file e (files w) of
        Inl x \<Rightarrow> (Inl x, w)
      | Inr wav_file_path \<Rightarrow>
          (let w1 = create_file wav_file_path w;
               params = [ustr ''-i'', input_file, ustr ''-ar'', ustr ''16000'', ustr ''-ac'',
                         ustr ''1'', ustr ''-af'', ustr ''aresample=async=1'', wav_file_path]
           in case runffmpeg e params of
                Inl x \<Rightarrow> (Inl x, w1)
              | Inr rs \<Rightarrow>
                  if rs \<noteq> ustr ''ok'' then (Inl (RuntimeError (ustr ''FFmpeg error: '' @ rs)), w1)
                  else (Inr wav_file_path, w1)))"

subsection \<open>process_file\<close>

definition whisper_args :: "env \<Rightarrow> (pystr \<rightharpoonup> cfgval) \<Rightarrow> pystr \<Rightarrow> model_args" where
  "whisper_args e sets model_name =
     \<lparr>model_size_or_path =
        (if prefix (ustr ''distil'') model_name then str_replace (ustr ''-whisper'') [] model_name
         else model_name),
      device = sets (ustr ''devtype''),
      compute_type = sets (ustr ''cuda_com_type''),
      download_root = root_dir e @ ustr ''/models'',
      local_files_only = (if 47 \<in> set model_name then False else True)\<rparr>"

definition transcribe_args :: "(pystr \<rightharpoonup> cfgval) \<Rightarrow> pystr \<Rightarrow> transcribe_kwargs" where
  "transcribe_args sets lang =
     \<lparr>beam_size = sets (ustr ''beam_size''),
      best_of = sets (ustr ''best_of''),
      condition_on_previous_text = sets (ustr ''condition_on_previous_text''),
      vad_filter = sets (ustr ''vad''),
      language = (if lang \<noteq> ustr ''auto'' then Some lang else None),
      initial_prompt = (if lang = ustr ''zh'' then sets (ustr ''initial_prompt_zh'') else None)\<rparr>"

text \<open>
  The \<^verbatim>\<open>try\<close> block. Beside its outcome and the world it returns the value of the
  local variable \<open>wav_file\<close> at the point where the block was left: it is assigned only
  when \<open>convert_to_wav\<close> returns.
\<close>

definition try_block ::
  "env \<Rightarrow> pystr \<Rightarrow> pystr \<Rightarrow> pystr \<Rightarrow> world \<Rightarrow> (exn + unit) \<times> pystr option \<times> world" where
  "try_block e input_file model_name lang w =
     (case parse_ini e of
        Inl x \<Rightarrow> (Inl x, None, w)
      | Inr sets \<Rightarrow>
          (case whisper_model e (whisper_args e sets model_name) of
             Inl x \<Rightarrow> (Inl x, None, w)
           | Inr model \<Rightarrow>
               (let w1 = emit (Log_processing input_file) w
                in case convert_to_wav e input_file w1 of
                     (Inl x, w2) \<Rightarrow> (Inl x, None, w2)
                   | (Inr wav_file, w2) \<Rightarrow>
                       (case model wav_file (transcribe_args sets lang) of
                          Inl x \<Rightarrow> (Inl x, Some wav_file, w2)
                        | Inr (segments, duration) \<Rightarrow>
                            (case write_srt e segments input_file duration w2 of
                               (r, w3) \<Rightarrow> (r, Some wav_file, w3))))))"

text \<open>\<^verbatim>\<open>except Exception as e\<close>: the error is logged and dropped.\<close>

definition except_clause :: "pystr \<Rightarrow> exn + unit \<Rightarrow> world \<Rightarrow> (exn + unit) \<times> world" where
  "except_clause input_file r w =
     (case r of Inl x \<Rightarrow> (Inr (), emit (Log_error input_file x) w) | Inr u \<Rightarrow> (Inr (), w))"

text \<open>
  \<^verbatim>\<open>finally\<close>: \<^verbatim>\<open>if wav_file and os.path.exists(wav_file)\<close>, where \<open>None\<close> and
  the empty string are false.
\<close>

definition finally_clause :: "pystr option \<Rightarrow> world \<Rightarrow> world" where
  "finally_clause wav_file w =
     (case wav_file of
        None \<Rightarrow> w
      | Some p \<Rightarrow> if p \<noteq> [] \<and> p \<in> files w then emit (Log_deleted p) (os_remove p w) else w)"

definition process_file ::
  "env \<Rightarrow> pystr \<Rightarrow> pystr \<Rightarrow> pystr \<Rightarrow> world \<Rightarrow> (exn + unit) \<times> world" where
  "process_file e input_file model_name lang w =
     (case try_block e input_file model_name lang w of
        (r, wav_file, w1) \<Rightarrow>
          (case except_clause input_file r w1 of
             (r', w2) \<Rightarrow> (r', finally_clause wav_file w2)))"

subsection \<open>main\<close>

text \<open>
  The loop over the input files: an exception that leaves \<open>process_file\<close> would end it.
\<close>

fun batch :: "env \<Rightarrow> pystr list \<Rightarrow> pystr \<Rightarrow> pystr \<Rightarrow> world \<Rightarrow> (exn + unit) \<times> world" where
  "batch e [] model_name lang w = (Inr (), w)"
| "batch e (input_file # input_files) model_name lang w =
     (case process_file e input_file model_name lang w of
        (Inl x, w1) \<Rightarrow> (Inl x, w1)
      | (Inr u, w1) \<Rightarrow> batch e input_files model_name lang w1)"

datatype outcome = Returned | SystemExit int | Uncaught exn

definition main :: "env \<Rightarrow> pystr list \<Rightarrow> world \<Rightarrow> outcome \<times> world" where
  "main e args w =
     (if length args < 3 then (SystemExit 1, emit Print_usage w)
      else
        (case batch e (drop 2 args) (args ! 0) (args ! 1) w of
           (Inl x, w1) \<Rightarrow> (Uncaught x, w1)
         | (Inr u, w1) \<Rightarrow> (Returned, w1)))"

subsection \<open>Stub collaborators for concrete runs\<close>

text \<open>
  An environment whose configuration is empty, whose recogniser answers \<open>tr\<close> (segments
  and a total duration in whole seconds, or an error) whatever it is asked, whose ffmpeg
  answers \<open>ff\<close>, and whose temporary file is always \<^verbatim>\<open>/tmp/tmpa1.wav\<close>; opening and
  writing the subtitle file succeed.
\<close>

definition stub_model :: "exn + (segment gen \<times> int) \<Rightarrow> model" where
  "stub_model tr wav kw = (case tr of Inl x \<Rightarrow> Inl x | Inr (g, d) \<Rightarrow> Inr (g, Finite d 0))"

definition stub_env :: "exn + pystr \<Rightarrow> exn + (segment gen \<times> int) \<Rightarrow> env" where
  "stub_env ff tr =
     \<lparr>parse_ini = Inr Map.empty, root_dir = ustr ''/stt'',
      whisper_model = (\<lambda>a. Inr (stub_model tr)),
      named_temporary_file = (\<lambda>existing. Inr (ustr ''/tmp/tmpa1.wav'')),
      runffmpeg = (\<lambda>ps. ff), open_write = (\<lambda>p. None), file_write = (\<lambda>p c. None)\<rparr>"

definition world0 :: world where
  "world0 = \<lparr>files = {}, trace = []\<rparr>"

text \<open>A segment from second \<open>a\<close> to second \<open>b\<close>, both whole.\<close>

definition seg :: "int \<Rightarrow> int \<Rightarrow> pystr \<Rightarrow> segment" where
  "seg a b t = \<lparr>seg_start = Finite a 0, seg_end = Finite b 0, seg_text = t\<rparr>"

subsection \<open>Observations on runs\<close>

text \<open>
  The segments a generator yields before it stops or raises; the first line of a
  subtitle block, which holds its index; the events that write a file.
\<close>

fun yielded :: "'a gen \<Rightarrow> 'a list" where
  "yielded Stop = []"
| "yielded (Raise x) = []"
| "yielded (Yield a g) = a # yielded g"

definition block_index :: "pystr \<Rightarrow> pystr" where
  "block_index b = takeWhile (\<lambda>c. c \<noteq> 10) b"

definition is_write :: "event \<Rightarrow> bool" where
  "is_write ev = (case ev of File_written p c \<Rightarrow> True | _ \<Rightarrow> False)"

text \<open>
  What the loop of \<open>write_srt\<close> is expected to build from the accepted segments,
  numbered from \<open>n\<close>: for each one the block with its number, the two timestamps of
  its times in milliseconds and its cleaned text; nothing if a time cannot be converted.
\<close>

fun blocks_of :: "nat \<Rightarrow> segment list \<Rightarrow> pystr list option" where
  "blocks_of n [] = Some []"
| "blocks_of n (s # ss) =
     (case (to_ms (seg_start s), to_ms (seg_end s)) of
        (Inr a, Inr c) \<Rightarrow>
          map_option
            ((#) (srt_block n (ms_to_time_string a) (ms_to_time_string c) (segment_text s)))
            (blocks_of (Suc n) ss)
      | _ \<Rightarrow> None)"

text \<open>
  The ASCII punctuation characters (Python's \<^verbatim>\<open>string.punctuation\<close>), for comparison
  with the class of the pattern.
\<close>

definition ascii_punctuation :: "nat \<Rightarrow> bool" where
  "ascii_punctuation c =
     ((0x21 \<le> c \<and> c \<le> 0x2F) \<or> (0x3A \<le> c \<and> c \<le> 0x40) \<or> (0x5B \<le> c \<and> c \<le> 0x60)
      \<or> (0x7B \<le> c \<and> c \<le> 0x7E))"

text \<open>
  The doubles nearest to 1.2345, 2.5, 0.06 and 4.02 (what Python reads these literals
  as).
\<close>

definition f_1_2345 :: pyfloat where
  "f_1_2345 = Finite 5559693739988877 (- 52)"

definition f_2_5 :: pyfloat where
  "f_2_5 = Finite 5 (- 1)"

definition f_0_06 :: pyfloat where
  "f_0_06 = Finite 1080863910568919 (- 54)"

definition f_4_02 :: pyfloat where
  "f_4_02 = Finite 1131529406376837 (- 48)"

text \<open>Three raw segments, the second of which is CJK full stops only.\<close>

definition three_segments :: "segment gen" where
  "three_segments =
     Yield (seg 0 1 (ustr ''hello'')) (Yield (seg 1 2 [0x3002, 0x3002, 0x3002])
       (Yield (seg 2 3 (ustr ''a,b'')) Stop))"

section \<open>Properties\<close>

subsection \<open>Text cleaning and the noise filter\<close>

lemma uni_decimal_ascii: "c < 128 \<Longrightarrow> uni_decimal c = (48 \<le> c \<and> c < 58)"
  by (auto simp: uni_decimal_def decimal_zeros_def)

lemma str_replace_absent:
  "old \<noteq> [] \<Longrightarrow> hd old \<notin> set t \<Longrightarrow> str_replace old new t = t"
proof (induction t)
  case Nil
  then show ?case by simp
next
  case (Cons c cs)
  then have "\<not> prefix old (c # cs)"
    by (cases old) auto
  with Cons show ?case by simp
qed

lemma entity_len_no_amp: "hd t \<noteq> 38 \<Longrightarrow> entity_len t = None"
  by (auto simp: entity_len_def split: list.splits)

lemma re_sub_entity_absent: "38 \<notin> set t \<Longrightarrow> re_sub_entity t = t"
  by (induction t) (auto simp: entity_len_no_amp)

lemma set_strip: "set (strip t) \<subseteq> set t"
proof
  fix x assume "x \<in> set (strip t)"
  then have "x \<in> set (dropWhile uni_space (rev (dropWhile uni_space t)))"
    by (simp add: strip_def)
  then have "x \<in> set (rev (dropWhile uni_space t))"
    by (rule set_dropWhileD)
  then have "x \<in> set (dropWhile uni_space t)"
    by simp
  then show "x \<in> set t"
    by (rule set_dropWhileD)
qed

lemma noise_newline: "noise_class 10"
  by (simp add: noise_class_def uni_space_def)

lemma re_match_noise_iff: "re_match_noise t \<longleftrightarrow> list_all noise_class t"
proof
  assume "re_match_noise t"
  then obtain k where k: "k \<le> length (takeWhile noise_class t)" and d: "at_dollar (drop k t)"
    by (auto simp: re_match_noise_def list_ex_iff less_Suc_eq_le simp del: upt_Suc)
  have pre: "list_all noise_class (take k t)"
  proof -
    have "take k t = take k (takeWhile noise_class t)"
      using k by (metis append_eq_conv_conj min.absorb2 take_all take_take takeWhile_dropWhile_id take_append length_take)
    then show ?thesis
      by (metis in_set_takeD list_all_iff set_takeWhileD)
  qed
  from d have "list_all noise_class (drop k t)"
    by (auto simp: at_dollar_def noise_newline)
  with pre have "list_all noise_class (take k t @ drop k t)"
    by (simp only: list_all_append)
  then show "list_all noise_class t"
    by (simp only: append_take_drop_id)
next
  assume "list_all noise_class t"
  then have tw: "takeWhile noise_class t = t" by (simp add: list_all_iff)
  have "length t \<in> set [0..<Suc (length t)]"
    by simp
  then have "length t \<in> set [0..<Suc (length (takeWhile noise_class t))]"
    by (simp only: tw)
  moreover have "at_dollar (drop (length t) t)"
    by (simp add: at_dollar_def)
  ultimately show "re_match_noise t"
    unfolding re_match_noise_def list_ex_iff by blast
qed


text \<open>
  C3, as the spec states it, fails on its own example: the numeric entity
  \<^verbatim>\<open>&#160;\<close> is deleted, not turned into a space. Nor does trimming come last: the
  cleaned text of \<^verbatim>\<open>&#160; a\<close> begins with a space, which a final trim would remove.
\<close>

theorem entity_example_has_no_space:
  "segment_text (seg 0 1 (ustr ''it&#39;s&#160;fine'')) \<noteq> ustr ''it'' @ [39] @ ustr ''s fine''
   \<and> segment_text (seg 0 1 (ustr ''&#160; a'')) \<noteq> strip (segment_text (seg 0 1 (ustr ''&#160; a'')))"
  by (simp add: segment_text_def seg_def ustr_def strip_def uni_space_def entity_len_def
      uni_decimal_ascii)

text \<open>
  C3 (amended): the raw text is trimmed first; then every \<^verbatim>\<open>&#39;\<close> becomes an
  apostrophe; then the remaining numeric entities are deleted, nothing being put in
  their place and no second trim taking place. A text without an ampersand is only
  trimmed. The input \<^verbatim>\<open>it&#39;s&#160;fine\<close> yields \<^verbatim>\<open>it'sfine\<close>, and a space
  uncovered by a deleted entity stays.
\<close>

theorem cleaning_trims_then_replaces_then_deletes:
  "segment_text s = re_sub_entity (str_replace (ustr ''&#39;'') [39] (strip (seg_text s)))
   \<and> (38 \<notin> set (seg_text s) \<longrightarrow> segment_text s = strip (seg_text s))
   \<and> segment_text (seg 0 1 (ustr ''it&#39;s&#160;fine'')) = ustr ''it'' @ [39] @ ustr ''sfine''
   \<and> segment_text (seg 0 1 (ustr ''&#160; a'')) = ustr '' a''"
proof -
  have "segment_text s = strip (seg_text s)" if "38 \<notin> set (seg_text s)"
  proof -
    from that have n: "38 \<notin> set (strip (seg_text s))"
      using set_strip by blast
    then have "str_replace (ustr ''&#39;'') [39] (strip (seg_text s)) = strip (seg_text s)"
      by (intro str_replace_absent) (simp_all add: ustr_def)
    with n show ?thesis
      by (simp add: segment_text_def re_sub_entity_absent)
  qed
  moreover have "segment_text (seg 0 1 (ustr ''it&#39;s&#160;fine'')) = ustr ''it'' @ [39] @ ustr ''sfine''"
    by (simp add: segment_text_def seg_def ustr_def strip_def uni_space_def entity_len_def
        uni_decimal_ascii)
  moreover have "segment_text (seg 0 1 (ustr ''&#160; a'')) = ustr '' a''"
    by (simp add: segment_text_def seg_def ustr_def strip_def uni_space_def entity_len_def
        uni_decimal_ascii)
  ultimately show ?thesis
    by (simp add: segment_text_def)
qed

theorem cleaning_trims_then_replaces_then_deletes_witness:
  "38 \<notin> set (seg_text (seg 0 1 (ustr '' hi there  '')))
   \<and> segment_text (seg 0 1 (ustr '' hi there  '')) = ustr ''hi there''"
  using cleaning_trims_then_replaces_then_deletes
    [of "seg 0 1 (ustr '' hi there  '')", THEN conjunct2, THEN conjunct1]
  by (simp add: seg_def ustr_def strip_def uni_space_def)

lemma noise_class_chars:
  "noise_class c \<longleftrightarrow>
     uni_space c \<or> uni_decimal c
     \<or> (ascii_punctuation c \<and> c \<notin> {0x3C, 0x3E, 0x5B, 0x5D, 0x7B, 0x7C, 0x7D, 0x7E})
     \<or> c \<in> {0xFF0C, 0x3002, 0x3001, 0xFF1F, 0x2018, 0x2019, 0x201C, 0x201D, 0xFF1B, 0xFF1A,
            0xFF08, 0xFF5B, 0xFF5D, 0x3010, 0x3011, 0xFF09}"
proof -
  have "c \<in> set noise_chars \<longleftrightarrow>
      c = 0x20 \<or> (ascii_punctuation c \<and> c \<notin> {0x3C, 0x3E, 0x5B, 0x5D, 0x7B, 0x7C, 0x7D, 0x7E})
     \<or> c \<in> {0xFF0C, 0x3002, 0x3001, 0xFF1F, 0x2018, 0x2019, 0x201C, 0x201D, 0xFF1B, 0xFF1A,
            0xFF08, 0xFF5B, 0xFF5D, 0x3010, 0x3011, 0xFF09}"
    unfolding noise_chars_def ascii_punctuation_def by (simp only: list.set insert_iff empty_iff) arith
  moreover have "uni_space 0x20"
    by (simp add: uni_space_def)
  ultimately show ?thesis
    unfolding noise_class_def by auto
qed

text \<open>
  C4, as the spec states it, fails: the class of the pattern is not all of the CJK and
  ASCII punctuation. A tilde is ASCII punctuation, and a text that is only a tilde, or
  only brackets, is kept; so is the spec's own example of a text to reject, which
  contains the full-width exclamation mark U+FF01.
\<close>

theorem punctuation_only_text_kept:
  "ascii_punctuation 0x7E \<and> keep_text [0x7E]
   \<and> ascii_punctuation 0x5B \<and> ascii_punctuation 0x5D \<and> keep_text [0x5B, 0x5D]
   \<and> keep_text (ustr ''...'' @ [0xFF0C, 0x3002, 0xFF1F, 0xFF01] @ ustr ''123'')"
  by (simp add: keep_text_def re_match_noise_iff ustr_def ascii_punctuation_def noise_class_def
      noise_chars_def uni_space_def uni_decimal_ascii uni_decimal_def decimal_zeros_def)

text \<open>
  C4 (amended): a cleaned text is rejected exactly when it is empty or consists only of
  characters of the class of the pattern, and kept when it has one character outside
  it. The class is: Unicode whitespace, Unicode decimal digits, the ASCII punctuation
  except the eight characters \<^verbatim>\<open>< > [ ] { | } ~\<close>, and sixteen CJK marks (full-width
  comma, ideographic full stop and comma, full-width question mark, the four curly
  quotes, full-width semicolon, colon, parentheses and braces, and the lenticular
  brackets); the full-width exclamation mark is not in it.
\<close>

theorem filter_rejects_exactly_noise:
  "(keep_text t \<longleftrightarrow> t \<noteq> [] \<and> (\<exists>c \<in> set t. \<not> noise_class c))
   \<and> (noise_class c \<longleftrightarrow>
        uni_space c \<or> uni_decimal c
        \<or> (ascii_punctuation c \<and> c \<notin> {0x3C, 0x3E, 0x5B, 0x5D, 0x7B, 0x7C, 0x7D, 0x7E})
        \<or> c \<in> {0xFF0C, 0x3002, 0x3001, 0xFF1F, 0x2018, 0x2019, 0x201C, 0x201D, 0xFF1B, 0xFF1A,
               0xFF08, 0xFF5B, 0xFF5D, 0x3010, 0x3011, 0xFF09})
   \<and> (uni_space c \<longleftrightarrow>
        c \<in> {0x09, 0x0A, 0x0B, 0x0C, 0x0D, 0x1C, 0x1D, 0x1E, 0x1F, 0x20, 0x85, 0xA0, 0x1680,
              0x2028, 0x2029, 0x202F, 0x205F, 0x3000} \<or> (0x2000 \<le> c \<and> c \<le> 0x200A))
   \<and> (c < 128 \<longrightarrow> (uni_decimal c \<longleftrightarrow> 0x30 \<le> c \<and> c \<le> 0x39))
   \<and> \<not> noise_class 0xFF01"
proof -
  have a: "keep_text t \<longleftrightarrow> t \<noteq> [] \<and> (\<exists>c \<in> set t. \<not> noise_class c)"
    by (auto simp: keep_text_def re_match_noise_iff list_all_iff)
  have b: "uni_space c \<longleftrightarrow>
        c \<in> {0x09, 0x0A, 0x0B, 0x0C, 0x0D, 0x1C, 0x1D, 0x1E, 0x1F, 0x20, 0x85, 0xA0, 0x1680,
              0x2028, 0x2029, 0x202F, 0x205F, 0x3000} \<or> (0x2000 \<le> c \<and> c \<le> 0x200A)"
    unfolding uni_space_def by (simp only: insert_iff empty_iff) arith
  have c: "c < 128 \<longrightarrow> (uni_decimal c \<longleftrightarrow> 0x30 \<le> c \<and> c \<le> 0x39)"
    by (auto simp: uni_decimal_ascii)
  have d: "\<not> noise_class 0xFF01"
    by (simp add: noise_class_def noise_chars_def uni_space_def uni_decimal_def decimal_zeros_def)
  from a b c d noise_class_chars [of c] show ?thesis
    by blast
qed

theorem filter_rejects_exactly_noise_witness:
  "keep_text (ustr ''hello'') \<and> keep_text [0x4F60, 0x597D] \<and> keep_text (ustr ''a,b'')
   \<and> keep_text (ustr ''~'')
   \<and> keep_text (ustr ''...'' @ [0xFF0C, 0x3002, 0xFF1F, 0xFF01] @ ustr ''123'')
   \<and> \<not> keep_text [] \<and> \<not> keep_text (ustr ''...'' @ [0xFF0C, 0x3002, 0xFF1F] @ ustr ''123'')"
proof -
  have a: "\<not> noise_class 104" "\<not> noise_class 97" "\<not> noise_class 126"
    by (simp_all add: noise_class_def noise_chars_def uni_space_def uni_decimal_ascii)
  have b: "\<not> noise_class 0x4F60" "\<not> noise_class 0xFF01"
    by (simp_all add: noise_class_def noise_chars_def uni_space_def uni_decimal_def
        decimal_zeros_def)
  have c: "noise_class 46" "noise_class 0xFF0C" "noise_class 0x3002" "noise_class 0xFF1F"
    "noise_class 49" "noise_class 50" "noise_class 51"
    by (simp_all add: noise_class_def noise_chars_def uni_space_def uni_decimal_ascii)
  note k = filter_rejects_exactly_noise [THEN conjunct1]
  show ?thesis
    using k [of "ustr ''hello''"] k [of "[0x4F60, 0x597D]"] k [of "ustr ''a,b''"]
      k [of "ustr ''~''"] k [of "ustr ''...'' @ [0xFF0C, 0x3002, 0xFF1F, 0xFF01] @ ustr ''123''"]
      k [of "[]"] k [of "ustr ''...'' @ [0xFF0C, 0x3002, 0xFF1F] @ ustr ''123''"]
      a b c
    by (simp add: ustr_def)
qed

subsection \<open>The loop of write_srt\<close>

lemma str_nat_digits: "\<forall>c \<in> set (str_nat n). 48 \<le> c \<and> c < 58"
proof (induction n rule: str_nat.induct)
  case (1 n)
  show ?case
  proof (cases "n < 10")
    case True
    then show ?thesis by (subst str_nat.simps) simp
  next
    case False
    have "n mod 10 < 10" by simp
    with False 1 show ?thesis
      by (subst str_nat.simps) auto
  qed
qed

lemma block_index_srt_block: "block_index (srt_block n a b t) = str_nat n"
proof -
  have "\<forall>c \<in> set (str_nat n). c \<noteq> 10"
    using str_nat_digits [of n] by auto
  then show ?thesis
    by (simp add: block_index_def srt_block_def takeWhile_append2 [where ys = "10 # _"] takeWhile_tail)
qed

lemma srt_loop_Yield:
  assumes "srt_loop f d (Yield s rest) acc w = (Inr bs, w')"
  obtains a c where "\<not> is_zero d" "to_ms (seg_start s) = Inr a" "to_ms (seg_end s) = Inr c"
    "srt_loop f d rest
       (if keep_text (segment_text s)
        then acc @ [srt_block (length acc + 1) (ms_to_time_string a) (ms_to_time_string c)
                      (segment_text s)]
        else acc)
       (emit (Log_progress (seg_end s) d f) w) = (Inr bs, w')"
  using assms by (auto simp: Let_def split: if_splits sum.splits)

lemma srt_loop_renders:
  "srt_loop f d g acc w = (Inr bs, w') \<Longrightarrow>
   \<exists>new. bs = acc @ new
     \<and> blocks_of (Suc (length acc)) (filter (\<lambda>s. keep_text (segment_text s)) (yielded g)) = Some new"
proof (induction g arbitrary: acc w)
  case Stop
  then show ?case by simp
next
  case (Raise x)
  then show ?case by simp
next
  case (Yield s rest)
  from Yield.prems obtain a c where ac: "to_ms (seg_start s) = Inr a" "to_ms (seg_end s) = Inr c"
    and run: "srt_loop f d rest
       (if keep_text (segment_text s)
        then acc @ [srt_block (length acc + 1) (ms_to_time_string a) (ms_to_time_string c)
                      (segment_text s)]
        else acc)
       (emit (Log_progress (seg_end s) d f) w) = (Inr bs, w')"
    by (rule srt_loop_Yield)
  let ?b = "srt_block (length acc + 1) (ms_to_time_string a) (ms_to_time_string c) (segment_text s)"
  show ?case
  proof (cases "keep_text (segment_text s)")
    case True
    with run have "srt_loop f d rest (acc @ [?b]) (emit (Log_progress (seg_end s) d f) w) = (Inr bs, w')"
      by simp
    from Yield.IH [OF this] obtain new where n: "bs = (acc @ [?b]) @ new"
      "blocks_of (Suc (length (acc @ [?b])))
         (filter (\<lambda>s. keep_text (segment_text s)) (yielded rest)) = Some new"
      by blast
    from n(2) ac True
    have "blocks_of (Suc (length acc))
            (filter (\<lambda>s. keep_text (segment_text s)) (yielded (Yield s rest))) = Some (?b # new)"
      by simp
    with n(1) show ?thesis
      by (intro exI [of _ "?b # new"]) simp
  next
    case False
    with run have "srt_loop f d rest acc (emit (Log_progress (seg_end s) d f) w) = (Inr bs, w')"
      by simp
    from Yield.IH [OF this] False show ?thesis
      by simp
  qed
qed

lemma blocks_of_indices:
  "blocks_of n ss = Some bs \<Longrightarrow>
   length bs = length ss \<and> map block_index bs = map str_nat [n..<n + length ss]"
proof (induction ss arbitrary: n bs)
  case Nil
  then show ?case by simp
next
  case (Cons s ss)
  from Cons.prems obtain a c rest where r: "blocks_of (Suc n) ss = Some rest"
    "bs = srt_block n (ms_to_time_string a) (ms_to_time_string c) (segment_text s) # rest"
    by (auto split: sum.splits)
  have "[n..<n + length (s # ss)] = n # [Suc n..<Suc n + length ss]"
    by (simp add: upt_conv_Cons del: upt_Suc)
  with Cons.IH [OF r(1)] r(2) show ?case
    by (simp add: block_index_srt_block del: upt_Suc)
qed

lemma srt_loop_blocks:
  assumes "srt_loop f d g acc w = (Inr bs, w')"
  shows "\<exists>new. bs = acc @ new
     \<and> length new = length (filter (\<lambda>s. keep_text (segment_text s)) (yielded g))
     \<and> map block_index new = map str_nat [Suc (length acc)..<Suc (length acc + length new)]"
proof -
  from srt_loop_renders [OF assms] obtain new where n: "bs = acc @ new"
    "blocks_of (Suc (length acc)) (filter (\<lambda>s. keep_text (segment_text s)) (yielded g)) = Some new"
    by blast
  from blocks_of_indices [OF n(2)] n(1) show ?thesis
    by auto
qed

lemma srt_loop_no_write:
  "srt_loop f d g acc w = (r, w') \<Longrightarrow>
   files w' = files w \<and> filter is_write (trace w') = filter is_write (trace w)"
proof (induction g arbitrary: acc w)
  case Stop
  then show ?case by auto
next
  case (Raise x)
  then show ?case by auto
next
  case (Yield s rest)
  let ?w1 = "emit (Log_progress (seg_end s) d f) w"
  have w1: "files ?w1 = files w" "filter is_write (trace ?w1) = filter is_write (trace w)"
    by (simp_all add: emit_def is_write_def)
  from Yield.prems consider "w' = w" | "w' = ?w1" | acc' where "srt_loop f d rest acc' ?w1 = (r, w')"
    by (auto simp: Let_def split: if_splits sum.splits)
  then show ?case
  proof cases
    case 1
    then show ?thesis by simp
  next
    case 2
    with w1 show ?thesis by simp
  next
    case 3
    from Yield.IH [OF this] w1 show ?thesis by simp
  qed
qed

lemma str_nat_small: "n < 10 \<Longrightarrow> str_nat n = [48 + n]"
  by (subst str_nat.simps) simp

lemma zfill2: "k < 100 \<Longrightarrow> zfill 2 (str_nat k) = [48 + k div 10, 48 + k mod 10]"
proof (cases "k < 10")
  case True
  then show ?thesis
    by (simp add: zfill_def str_nat.simps [of k] numeral_2_eq_2)
next
  case False
  assume "k < 100"
  then have "k div 10 < 10" by simp
  with False show ?thesis
    by (simp add: zfill_def str_nat.simps [of k] str_nat.simps [of "k div 10"])
qed

lemma zfill3:
  "k < 1000 \<Longrightarrow> zfill 3 (str_nat k) = [48 + k div 100, 48 + k div 10 mod 10, 48 + k mod 10]"
proof -
  assume k: "k < 1000"
  consider "k < 10" | "10 \<le> k" "k < 100" | "100 \<le> k"
    by linarith
  then show ?thesis
  proof cases
    case 1
    then show ?thesis
      by (simp add: zfill_def str_nat.simps [of k] numeral_3_eq_3)
  next
    case 2
    then have "k div 10 < 10" "k div 100 = 0" by simp_all
    with 2 show ?thesis
      by (simp add: zfill_def str_nat.simps [of k] str_nat.simps [of "k div 10"])
  next
    case 3
    with k have "\<not> k < 10" "\<not> k div 10 < 10" "k div 10 div 10 < 10" "k div 10 div 10 = k div 100"
      by (simp_all add: div_mult2_eq [symmetric])
    then show ?thesis
      by (simp add: zfill_def str_nat.simps [of k] str_nat.simps [of "k div 10"]
          str_nat.simps [of "k div 100"])
  qed
qed

lemma ms_to_time_string_shape:
  assumes "0 \<le> ms" "ms < 360000000"
  shows "ms_to_time_string ms =
     (let n = nat ms; h = n div 3600000; m = n div 60000 mod 60; s = n div 1000 mod 60;
          f = n mod 1000
      in [48 + h div 10, 48 + h mod 10, 58, 48 + m div 10, 48 + m mod 10, 58,
          48 + s div 10, 48 + s mod 10, 44, 48 + f div 100, 48 + f div 10 mod 10, 48 + f mod 10])"
proof -
  from assms have "nat ms div 3600000 < 100" by simp
  moreover have "nat ms div 60000 mod 60 < 100" "nat ms div 1000 mod 60 < 100"
    by (simp_all add: less_trans [OF mod_less_divisor])
  moreover have "nat ms mod 1000 < 1000" by simp
  ultimately show ?thesis
    by (simp add: ms_to_time_string_def Let_def zfill2 zfill3)
qed


subsection \<open>Float arithmetic\<close>

lemma pow2_powi: "pow2 e = 2 powi e"
  by (simp add: pow2_def power_int_def inverse_eq_divide power_divide)

lemma pow2_add: "pow2 (a + b) = pow2 a * pow2 b"
  by (simp add: pow2_powi power_int_add)

lemma pow2_pos: "0 < pow2 e"
  by (simp add: pow2_def)

lemma pow2_nat: "pow2 (int k) = 2 ^ k"
  by (simp add: pow2_def)

lemma py_int_truncates:
  assumes "py_int (Finite m e) = Inr k"
  shows "(0 \<le> dyadic m e \<longrightarrow> k = \<lfloor>dyadic m e\<rfloor>) \<and> (dyadic m e \<le> 0 \<longrightarrow> k = \<lceil>dyadic m e\<rceil>)"
proof (cases "0 \<le> e")
  case True
  then have "dyadic m e = of_int (m * 2 ^ nat e)"
    by (simp add: dyadic_def pow2_def)
  moreover from True assms have "k = m * 2 ^ nat e"
    by (simp add: py_int_def)
  ultimately show ?thesis
    by (simp only: floor_of_int ceiling_of_int) simp
next
  case False
  let ?p = "(2::int) ^ nat (- e)"
  have p: "0 < ?p" by simp
  from False have v: "dyadic m e = of_int m / of_int ?p"
    by (simp add: dyadic_def pow2_def)
  from False assms have k: "k = sgn m * (\<bar>m\<bar> div ?p)"
    by (simp add: py_int_def)
  show ?thesis
  proof (cases "0 \<le> m")
    case True
    then have "k = m div ?p"
      using k by (cases "m = 0") (simp_all add: sgn_if)
    then have fl: "k = \<lfloor>dyadic m e\<rfloor>"
      by (simp only: v floor_divide_of_int_eq)
    have "0 \<le> dyadic m e"
      using True by (simp add: v)
    moreover have "k = \<lceil>dyadic m e\<rceil>" if "dyadic m e \<le> 0"
    proof -
      from that \<open>0 \<le> dyadic m e\<close> have "dyadic m e = 0" by simp
      with fl show ?thesis by simp
    qed
    ultimately show ?thesis using fl by blast
  next
    case False
    then have m: "m < 0" by simp
    then have "k = - ((- m) div ?p)"
      using k by (simp add: sgn_if)
    also have "\<dots> = - \<lfloor>(of_int (- m) :: rat) / of_int ?p\<rfloor>"
      by (simp only: floor_divide_of_int_eq)
    also have "\<dots> = \<lceil>dyadic m e\<rceil>"
      by (simp add: v ceiling_def)
    finally have ce: "k = \<lceil>dyadic m e\<rceil>" .
    have "dyadic m e < 0"
      using m p by (simp add: v divide_neg_pos)
    with ce show ?thesis by simp
  qed
qed

lemma round_half_even_near: "2 * \<bar>round_half_even m k * 2 ^ k - m\<bar> \<le> 2 ^ k"
proof -
  define p :: int where "p = 2 ^ k"
  define q where "q = m div p"
  define r where "r = m mod p"
  have p: "0 < p" by (simp add: p_def)
  have m: "m = q * p + r"
    unfolding q_def r_def by (rule div_mult_mod_eq [symmetric])
  have r: "0 \<le> r" "r < p"
    using p by (simp_all add: r_def)
  have d: "round_half_even m k = (if p < 2 * r \<or> (2 * r = p \<and> odd q) then q + 1 else q)"
    by (simp add: round_half_even_def Let_def p_def q_def r_def)
  show ?thesis
  proof (cases "p < 2 * r \<or> (2 * r = p \<and> odd q)")
    case True
    with d have "round_half_even m k = q + 1"
      by simp
    moreover have "(q + 1) * p - m = p - r"
      by (subst m) (simp add: algebra_simps)
    ultimately have "round_half_even m k * p - m = p - r"
      by simp
    moreover from True r have "2 * \<bar>p - r\<bar> \<le> p"
      by (auto simp: abs_if)
    ultimately show ?thesis
      by (simp add: p_def)
  next
    case False
    with d have "round_half_even m k = q"
      by simp
    moreover have "q * p - m = - r"
      by (subst m) simp
    ultimately have "round_half_even m k * p - m = - r"
      by simp
    moreover from False r have "2 * \<bar>- r\<bar> \<le> p"
      by (auto simp: abs_if)
    ultimately show ?thesis
      by (simp add: p_def)
  qed
qed

lemma round_to_double_near:
  assumes "round_to_double m e = Finite m' e'"
  shows "2 * \<bar>dyadic m' e' - dyadic m e\<bar> \<le> pow2 e'"
proof -
  define k where "k = nat (max (int (bit_length (nat \<bar>m\<bar>)) - 53) (- 1074 - e))"
  have "round_to_double m e =
      (if 1024 < int (bit_length (nat \<bar>round_half_even m k\<bar>)) + (e + int k)
       then (if m < 0 then NegInf else PosInf) else Finite (round_half_even m k) (e + int k))"
    unfolding round_to_double_def Let_def k_def ..
  with assms have me: "m' = round_half_even m k" "e' = e + int k"
    by (simp_all split: if_splits)
  have e': "pow2 e' = 2 ^ k * pow2 e"
    unfolding me by (simp only: pow2_add pow2_nat mult.commute)
  have "dyadic m' e' - dyadic m e = of_int (m' * 2 ^ k - m) * pow2 e"
    unfolding dyadic_def e' by (simp add: algebra_simps)
  then have "2 * \<bar>dyadic m' e' - dyadic m e\<bar> = of_int (2 * \<bar>m' * 2 ^ k - m\<bar>) * pow2 e"
    using pow2_pos [of e] by (simp add: abs_mult)
  also have "\<dots> \<le> of_int (2 ^ k) * pow2 e"
  proof (rule mult_right_mono)
    show "(of_int (2 * \<bar>m' * 2 ^ k - m\<bar>) :: rat) \<le> of_int (2 ^ k)"
      using round_half_even_near [of m k] unfolding me by (simp only: of_int_le_iff)
    show "0 \<le> pow2 e"
      using pow2_pos [of e] by simp
  qed
  also have "\<dots> = pow2 e'"
    unfolding e' by simp
  finally show ?thesis .
qed

lemmas text_eval = segment_text_def seg_def ustr_def strip_def uni_space_def entity_len_def
  uni_decimal_ascii keep_text_def re_match_noise_iff noise_class_def noise_chars_def

lemmas float_eval = to_ms_def py_int_def round_to_double_def round_half_even_def
  bit_length.simps is_zero_def Let_def

lemmas time_eval = ms_to_time_string_shape float_eval str_nat_small

subsection \<open>Block indices\<close>

text \<open>
  C5: when the loop has consumed the generator, the k-th block it emitted carries the
  index k, whatever was rejected in between, and there are as many blocks as accepted
  segments. Three segments with the second rejected give two blocks, indexed 1 and 2.
\<close>


theorem indices_contiguous_from_one:
  "srt_loop f d g [] w = (Inr bs, w') \<Longrightarrow>
   map block_index bs = map str_nat [1..<Suc (length bs)]
   \<and> length bs = length (filter (\<lambda>s. keep_text (segment_text s)) (yielded g))"
  using srt_loop_blocks [of f d g "[]" w bs w'] by auto

lemma three_segments_run:
  "fst (srt_loop (ustr ''a.mp4'') (Finite 3 0) three_segments [] world0) =
     Inr [ustr ''1'' @ [10] @ ustr ''00:00:00,000 --> 00:00:01,000'' @ [10] @ ustr ''hello'' @ [10],
          ustr ''2'' @ [10] @ ustr ''00:00:02,000 --> 00:00:03,000'' @ [10] @ ustr ''a,b'' @ [10]]"
  by (simp add: three_segments_def text_eval time_eval srt_block_def)

theorem indices_contiguous_from_one_witness:
  "fst (srt_loop (ustr ''a.mp4'') (Finite 3 0) three_segments [] world0) =
     Inr [ustr ''1'' @ [10] @ ustr ''00:00:00,000 --> 00:00:01,000'' @ [10] @ ustr ''hello'' @ [10],
          ustr ''2'' @ [10] @ ustr ''00:00:02,000 --> 00:00:03,000'' @ [10] @ ustr ''a,b'' @ [10]]
   \<and> map block_index
        [ustr ''1'' @ [10] @ ustr ''00:00:00,000 --> 00:00:01,000'' @ [10] @ ustr ''hello'' @ [10],
         ustr ''2'' @ [10] @ ustr ''00:00:02,000 --> 00:00:03,000'' @ [10] @ ustr ''a,b'' @ [10]]
      = [ustr ''1'', ustr ''2'']"
proof -
  let ?bs = "[ustr ''1'' @ [10] @ ustr ''00:00:00,000 --> 00:00:01,000'' @ [10] @ ustr ''hello'' @ [10],
          ustr ''2'' @ [10] @ ustr ''00:00:02,000 --> 00:00:03,000'' @ [10] @ ustr ''a,b'' @ [10]]"
  obtain w' where run:
    "srt_loop (ustr ''a.mp4'') (Finite 3 0) three_segments [] world0 = (Inr ?bs, w')"
    using three_segments_run by (metis prod.collapse)
  have "map str_nat [1..<Suc (length ?bs)] = [ustr ''1'', ustr ''2'']"
    by (simp add: str_nat_small ustr_def upt_conv_Cons del: upt_Suc)
  with indices_contiguous_from_one [OF run] have "map block_index ?bs = [ustr ''1'', ustr ''2'']"
    by (simp only:)
  with three_segments_run show ?thesis
    by (rule conjI)
qed

subsection \<open>Timestamps\<close>

text \<open>
  C6: when the loop has consumed the generator, its blocks are those of the accepted
  segments, each with the timestamps \<open>ms_to_time_string\<close> of its start and of its end
  in milliseconds. The milliseconds are \<^verbatim>\<open>int(x * 1000)\<close>: the float product, which is
  the exact product rounded to the nearest double (within half a unit of its last
  place), truncated towards zero (the floor of a non-negative number, the ceiling of a
  non-positive one); a NaN or an infinity makes \<^verbatim>\<open>int\<close> raise. For less than
  twenty-four hours the string is two digits, a colon, two digits, a colon, two digits,
  a comma and three digits, all zero-padded. The double nearest to 1.2345 gives 1234
  and \<^verbatim>\<open>00:00:01,234\<close>, 2.5 gives 2500 and \<^verbatim>\<open>00:00:02,500\<close>; the doubles nearest to
  0.06 and 4.02 give 60 and 4019.
\<close>

theorem timestamps_truncate_to_milliseconds:
  "(srt_loop f d g [] w = (Inr bs, w') \<longrightarrow>
      blocks_of 1 (filter (\<lambda>s. keep_text (segment_text s)) (yielded g)) = Some bs)
   \<and> to_ms (Finite m e) = py_int (round_to_double (m * 1000) e)
   \<and> (round_to_double (m * 1000) e = Finite m' e' \<longrightarrow>
        2 * \<bar>dyadic m' e' - dyadic m e * 1000\<bar> \<le> pow2 e'
        \<and> (\<exists>k. py_int (Finite m' e') = Inr k
               \<and> (0 \<le> dyadic m' e' \<longrightarrow> k = \<lfloor>dyadic m' e'\<rfloor>)
               \<and> (dyadic m' e' \<le> 0 \<longrightarrow> k = \<lceil>dyadic m' e'\<rceil>)))
   \<and> to_ms NaN = Inl (ValueError (ustr ''cannot convert float NaN to integer''))
   \<and> to_ms PosInf = Inl (OverflowError (ustr ''cannot convert float infinity to integer''))
   \<and> to_ms NegInf = Inl (OverflowError (ustr ''cannot convert float infinity to integer''))
   \<and> (0 \<le> ms \<and> ms < 86400000 \<longrightarrow>
        ms_to_time_string ms =
          (let n = nat ms; h = n div 3600000; m = n div 60000 mod 60; s = n div 1000 mod 60;
               f = n mod 1000
           in [48 + h div 10, 48 + h mod 10, 58, 48 + m div 10, 48 + m mod 10, 58,
               48 + s div 10, 48 + s mod 10, 44,
               48 + f div 100, 48 + f div 10 mod 10, 48 + f mod 10]))
   \<and> f_1_2345 = Finite 5559693739988877 (- 52)
   \<and> \<bar>dyadic 5559693739988877 (- 52) - 12345 / 10000\<bar> \<le> pow2 (- 53)
   \<and> to_ms f_1_2345 = Inr 1234 \<and> ms_to_time_string 1234 = ustr ''00:00:01,234''
   \<and> f_2_5 = Finite 5 (- 1) \<and> dyadic 5 (- 1) = 25 / 10
   \<and> to_ms f_2_5 = Inr 2500 \<and> ms_to_time_string 2500 = ustr ''00:00:02,500''
   \<and> to_ms f_0_06 = Inr 60 \<and> to_ms f_4_02 = Inr 4019"
proof -
  have a: "srt_loop f d g [] w = (Inr bs, w') \<longrightarrow>
      blocks_of 1 (filter (\<lambda>s. keep_text (segment_text s)) (yielded g)) = Some bs"
    using srt_loop_renders [of f d g "[]" w bs w'] by auto
  have b: "to_ms (Finite m e) = py_int (round_to_double (m * 1000) e)"
    by (simp add: to_ms_def)
  have c: "2 * \<bar>dyadic m' e' - dyadic m e * 1000\<bar> \<le> pow2 e'
        \<and> (\<exists>k. py_int (Finite m' e') = Inr k
               \<and> (0 \<le> dyadic m' e' \<longrightarrow> k = \<lfloor>dyadic m' e'\<rfloor>)
               \<and> (dyadic m' e' \<le> 0 \<longrightarrow> k = \<lceil>dyadic m' e'\<rceil>))"
    if r: "round_to_double (m * 1000) e = Finite m' e'"
  proof -
    have "dyadic (m * 1000) e = dyadic m e * 1000"
      by (simp add: dyadic_def)
    with round_to_double_near [OF r] have "2 * \<bar>dyadic m' e' - dyadic m e * 1000\<bar> \<le> pow2 e'"
      by simp
    moreover obtain k where k: "py_int (Finite m' e') = Inr k"
      by (simp add: py_int_def)
    note py_int_truncates [OF k]
    ultimately show ?thesis
      using k by blast
  qed
  have d: "to_ms NaN = Inl (ValueError (ustr ''cannot convert float NaN to integer''))"
    "to_ms PosInf = Inl (OverflowError (ustr ''cannot convert float infinity to integer''))"
    "to_ms NegInf = Inl (OverflowError (ustr ''cannot convert float infinity to integer''))"
    by (simp_all add: to_ms_def py_int_def)
  have s: "0 \<le> ms \<and> ms < 86400000 \<longrightarrow>
        ms_to_time_string ms =
          (let n = nat ms; h = n div 3600000; m = n div 60000 mod 60; s = n div 1000 mod 60;
               f = n mod 1000
           in [48 + h div 10, 48 + h mod 10, 58, 48 + m div 10, 48 + m mod 10, 58,
               48 + s div 10, 48 + s mod 10, 44,
               48 + f div 100, 48 + f div 10 mod 10, 48 + f mod 10])"
    using ms_to_time_string_shape [of ms] by simp
  have x1: "\<bar>dyadic 5559693739988877 (- 52) - 12345 / 10000\<bar> \<le> pow2 (- 53)"
    "dyadic 5 (- 1) = 25 / 10"
    by (simp_all add: dyadic_def pow2_def)
  have x2: "to_ms f_1_2345 = Inr 1234" "to_ms f_2_5 = Inr 2500" "to_ms f_0_06 = Inr 60"
    "to_ms f_4_02 = Inr 4019"
    by (simp_all add: f_1_2345_def f_2_5_def f_0_06_def f_4_02_def float_eval)
  have x3: "ms_to_time_string 1234 = ustr ''00:00:01,234''"
    "ms_to_time_string 2500 = ustr ''00:00:02,500''"
    by (simp_all add: ms_to_time_string_shape ustr_def)
  from a b c d s x1 x2 x3 show ?thesis
    by (simp only: f_1_2345_def f_2_5_def) blast
qed

theorem timestamps_truncate_to_milliseconds_witness:
  "fst (srt_loop (ustr ''a.mp4'') (Finite 10 0)
          (Yield \<lparr>seg_start = f_1_2345, seg_end = f_2_5, seg_text = ustr ''hi''\<rparr> Stop) [] world0) =
     Inr [ustr ''1'' @ [10] @ ustr ''00:00:01,234 --> 00:00:02,500'' @ [10] @ ustr ''hi'' @ [10]]
   \<and> blocks_of 1 [\<lparr>seg_start = f_1_2345, seg_end = f_2_5, seg_text = ustr ''hi''\<rparr>] =
       Some [ustr ''1'' @ [10] @ ustr ''00:00:01,234 --> 00:00:02,500'' @ [10] @ ustr ''hi'' @ [10]]
   \<and> round_to_double (5559693739988877 * 1000) (- 52) = Finite 5429388417957888 (- 42)
   \<and> 2 * \<bar>dyadic 5429388417957888 (- 42) - dyadic 5559693739988877 (- 52) * 1000\<bar> \<le> pow2 (- 42)
   \<and> py_int (Finite 5429388417957888 (- 42)) = Inr 1234
   \<and> (0::int) \<le> 1234 \<and> (1234::int) < 86400000"
proof -
  let ?s = "\<lparr>seg_start = f_1_2345, seg_end = f_2_5, seg_text = ustr ''hi''\<rparr>"
  let ?bs = "[ustr ''1'' @ [10] @ ustr ''00:00:01,234 --> 00:00:02,500'' @ [10] @ ustr ''hi'' @ [10]]"
  have run: "fst (srt_loop (ustr ''a.mp4'') (Finite 10 0) (Yield ?s Stop) [] world0) = Inr ?bs"
    by (simp add: f_1_2345_def f_2_5_def text_eval time_eval srt_block_def)
  then obtain w' where
    "srt_loop (ustr ''a.mp4'') (Finite 10 0) (Yield ?s Stop) [] world0 = (Inr ?bs, w')"
    by (metis prod.collapse)
  from timestamps_truncate_to_milliseconds [THEN conjunct1, THEN mp, OF this]
  have b: "blocks_of 1 [?s] = Some ?bs"
    by (simp add: text_eval)
  have r: "round_to_double (5559693739988877 * 1000) (- 52) = Finite 5429388417957888 (- 42)"
    by (simp add: float_eval)
  from timestamps_truncate_to_milliseconds
         [THEN conjunct2, THEN conjunct2, THEN conjunct1, THEN mp, OF r]
  have n: "2 * \<bar>dyadic 5429388417957888 (- 42) - dyadic 5559693739988877 (- 52) * 1000\<bar> \<le> pow2 (- 42)"
    by simp
  have "py_int (Finite 5429388417957888 (- 42)) = Inr 1234"
    by (simp add: py_int_def)
  with run b r n show ?thesis
    by simp
qed

subsection \<open>Writing the subtitle file\<close>

text \<open>
  C7: when the loop has consumed the generator and no block survived (which is when
  every yielded segment was rejected), \<open>write_srt\<close> creates no file, writes nothing
  and logs that no valid segment was found; when blocks survived and the subtitle file
  can be opened and written, the blocks joined by newlines are written to it in one
  write, the only one of the call. When the file cannot be opened, the error is raised
  and nothing has changed; when the write raises, the error is raised, the file having
  been created or truncated by the opening.
\<close>

theorem subtitle_written_once_or_not_at_all:
  assumes "srt_loop f d g [] w = (Inr bs, w1)"
  shows "(bs = [] \<longleftrightarrow> (\<forall>s \<in> set (yielded g). \<not> keep_text (segment_text s)))
    \<and> (bs = [] \<longrightarrow>
          write_srt e g f d w = (Inr (), emit (Log_no_valid_segments f) w1)
          \<and> files (snd (write_srt e g f d w)) = files w
          \<and> filter is_write (trace (snd (write_srt e g f d w))) = filter is_write (trace w))
    \<and> (bs \<noteq> [] \<and> open_write e (splitext_root f @ ustr ''.srt'') = None
         \<and> file_write e (splitext_root f @ ustr ''.srt'') (join [10] bs) = None \<longrightarrow>
          write_srt e g f d w =
            (Inr (), emit (Log_saved (splitext_root f @ ustr ''.srt''))
                       (write_file (splitext_root f @ ustr ''.srt'') (join [10] bs)
                          (open_file (splitext_root f @ ustr ''.srt'') w1)))
          \<and> filter is_write (trace (snd (write_srt e g f d w))) =
              filter is_write (trace w) @ [File_written (splitext_root f @ ustr ''.srt'') (join [10] bs)])
    \<and> (bs \<noteq> [] \<and> open_write e (splitext_root f @ ustr ''.srt'') = Some x \<longrightarrow>
          write_srt e g f d w = (Inl x, w1))
    \<and> (bs \<noteq> [] \<and> open_write e (splitext_root f @ ustr ''.srt'') = None
         \<and> file_write e (splitext_root f @ ustr ''.srt'') (join [10] bs) = Some x \<longrightarrow>
          write_srt e g f d w = (Inl x, open_file (splitext_root f @ ustr ''.srt'') w1)
          \<and> splitext_root f @ ustr ''.srt'' \<in> files (snd (write_srt e g f d w))
          \<and> filter is_write (trace (snd (write_srt e g f d w))) = filter is_write (trace w))"
proof -
  from srt_loop_blocks [OF assms]
  have "length bs = length (filter (\<lambda>s. keep_text (segment_text s)) (yielded g))"
    by auto
  then have a: "bs = [] \<longleftrightarrow> (\<forall>s \<in> set (yielded g). \<not> keep_text (segment_text s))"
    by (metis filter_False filter_empty_conv length_0_conv)
  from srt_loop_no_write [OF assms]
  have nw: "files w1 = files w" "filter is_write (trace w1) = filter is_write (trace w)"
    by simp_all
  have b: "write_srt e g f d w = (Inr (), emit (Log_no_valid_segments f) w1)
          \<and> files (snd (write_srt e g f d w)) = files w
          \<and> filter is_write (trace (snd (write_srt e g f d w))) = filter is_write (trace w)"
    if "bs = []"
    using that assms nw by (simp add: write_srt_def emit_def is_write_def)
  have c: "write_srt e g f d w =
            (Inr (), emit (Log_saved (splitext_root f @ ustr ''.srt''))
                       (write_file (splitext_root f @ ustr ''.srt'') (join [10] bs)
                          (open_file (splitext_root f @ ustr ''.srt'') w1)))
          \<and> filter is_write (trace (snd (write_srt e g f d w))) =
              filter is_write (trace w) @ [File_written (splitext_root f @ ustr ''.srt'') (join [10] bs)]"
    if "bs \<noteq> []" "open_write e (splitext_root f @ ustr ''.srt'') = None"
      "file_write e (splitext_root f @ ustr ''.srt'') (join [10] bs) = None"
    using that assms nw
    by (simp add: write_srt_def emit_def write_file_def open_file_def is_write_def Let_def)
  have d: "write_srt e g f d w = (Inl x, w1)"
    if "bs \<noteq> []" "open_write e (splitext_root f @ ustr ''.srt'') = Some x"
    using that assms by (simp add: write_srt_def Let_def)
  have e: "write_srt e g f d w = (Inl x, open_file (splitext_root f @ ustr ''.srt'') w1)
          \<and> splitext_root f @ ustr ''.srt'' \<in> files (snd (write_srt e g f d w))
          \<and> filter is_write (trace (snd (write_srt e g f d w))) = filter is_write (trace w)"
    if "bs \<noteq> []" "open_write e (splitext_root f @ ustr ''.srt'') = None"
      "file_write e (splitext_root f @ ustr ''.srt'') (join [10] bs) = Some x"
    using that assms nw
    by (simp add: write_srt_def emit_def open_file_def is_write_def Let_def)
  from a b c d e show ?thesis by blast
qed

lemma splitext_a_mp4: "splitext_root (ustr ''a.mp4'') @ ustr ''.srt'' = ustr ''a.srt''"
  by (simp add: splitext_root_def rfind_def ustr_def Let_def)

theorem subtitle_written_once_or_not_at_all_witness:
  "write_srt (stub_env (Inr (ustr ''ok'')) (Inr (Stop, 1))) (Yield (seg 0 1 [0x3002]) Stop)
     (ustr ''a.mp4'') (Finite 1 0) world0 =
     (Inr (), \<lparr>files = {}, trace = [Log_progress (Finite 1 0) (Finite 1 0) (ustr ''a.mp4''),
                                    Log_no_valid_segments (ustr ''a.mp4'')]\<rparr>)
   \<and> filter is_write
        (trace (snd (write_srt (stub_env (Inr (ustr ''ok'')) (Inr (Stop, 1))) three_segments
                       (ustr ''a.mp4'') (Finite 3 0) world0))) =
       [File_written (ustr ''a.srt'')
          (ustr ''1'' @ [10] @ ustr ''00:00:00,000 --> 00:00:01,000'' @ [10] @ ustr ''hello'' @ [10, 10]
           @ ustr ''2'' @ [10] @ ustr ''00:00:02,000 --> 00:00:03,000'' @ [10] @ ustr ''a,b'' @ [10])]
   \<and> write_srt
        ((stub_env (Inr (ustr ''ok'')) (Inr (Stop, 1)))
           \<lparr>file_write := \<lambda>p c. Some (OSError (ustr ''No space left on device''))\<rparr>)
        (Yield (seg 0 1 (ustr ''hello'')) Stop) (ustr ''a.mp4'') (Finite 1 0) world0 =
       (Inl (OSError (ustr ''No space left on device'')),
        \<lparr>files = {ustr ''a.srt''},
         trace = [Log_progress (Finite 1 0) (Finite 1 0) (ustr ''a.mp4''),
                  File_opened (ustr ''a.srt'')]\<rparr>)"
proof -
  let ?E = "stub_env (Inr (ustr ''ok'')) (Inr (Stop, 1))"
  let ?F = "?E\<lparr>file_write := \<lambda>p c. Some (OSError (ustr ''No space left on device''))\<rparr>"
  let ?bs = "[ustr ''1'' @ [10] @ ustr ''00:00:00,000 --> 00:00:01,000'' @ [10] @ ustr ''hello'' @ [10],
          ustr ''2'' @ [10] @ ustr ''00:00:02,000 --> 00:00:03,000'' @ [10] @ ustr ''a,b'' @ [10]]"
  let ?b1 = "[ustr ''1'' @ [10] @ ustr ''00:00:00,000 --> 00:00:01,000'' @ [10] @ ustr ''hello'' @ [10]]"
  have runA: "srt_loop (ustr ''a.mp4'') (Finite 1 0) (Yield (seg 0 1 [0x3002]) Stop) [] world0 =
      (Inr [], emit (Log_progress (Finite 1 0) (Finite 1 0) (ustr ''a.mp4'')) world0)"
    by (simp add: text_eval float_eval)
  have A: "write_srt ?E (Yield (seg 0 1 [0x3002]) Stop) (ustr ''a.mp4'') (Finite 1 0) world0 =
     (Inr (), \<lparr>files = {}, trace = [Log_progress (Finite 1 0) (Finite 1 0) (ustr ''a.mp4''),
                                    Log_no_valid_segments (ustr ''a.mp4'')]\<rparr>)"
    using subtitle_written_once_or_not_at_all [OF runA, of ?E, THEN conjunct2, THEN conjunct1]
    by (simp add: emit_def world0_def)
  obtain w1 where runB:
    "srt_loop (ustr ''a.mp4'') (Finite 3 0) three_segments [] world0 = (Inr ?bs, w1)"
    using three_segments_run by (metis prod.collapse)
  have o: "open_write ?E (splitext_root (ustr ''a.mp4'') @ ustr ''.srt'') = None"
    "file_write ?E (splitext_root (ustr ''a.mp4'') @ ustr ''.srt'') (join [10] ?bs) = None"
    by (simp_all add: stub_env_def)
  have ne: "?bs \<noteq> []" by simp
  have "filter is_write (trace (snd (write_srt ?E three_segments (ustr ''a.mp4'') (Finite 3 0) world0))) =
      filter is_write (trace world0) @ [File_written (splitext_root (ustr ''a.mp4'') @ ustr ''.srt'') (join [10] ?bs)]"
    using subtitle_written_once_or_not_at_all
            [OF runB, of ?E, THEN conjunct2, THEN conjunct2, THEN conjunct1, THEN mp,
             OF conjI [OF ne conjI [OF o]], THEN conjunct2]
    by simp
  then have B: "filter is_write (trace (snd (write_srt ?E three_segments (ustr ''a.mp4'') (Finite 3 0) world0))) =
       [File_written (ustr ''a.srt'')
          (ustr ''1'' @ [10] @ ustr ''00:00:00,000 --> 00:00:01,000'' @ [10] @ ustr ''hello'' @ [10, 10]
           @ ustr ''2'' @ [10] @ ustr ''00:00:02,000 --> 00:00:03,000'' @ [10] @ ustr ''a,b'' @ [10])]"
    by (simp add: splitext_a_mp4 world0_def)
  have runC: "srt_loop (ustr ''a.mp4'') (Finite 1 0) (Yield (seg 0 1 (ustr ''hello'')) Stop) [] world0 =
      (Inr ?b1, emit (Log_progress (Finite 1 0) (Finite 1 0) (ustr ''a.mp4'')) world0)"
    by (simp add: text_eval time_eval srt_block_def)
  have oc: "open_write ?F (splitext_root (ustr ''a.mp4'') @ ustr ''.srt'') = None"
    "file_write ?F (splitext_root (ustr ''a.mp4'') @ ustr ''.srt'') (join [10] ?b1) =
       Some (OSError (ustr ''No space left on device''))"
    by (simp_all add: stub_env_def)
  have nc: "?b1 \<noteq> []" by simp
  have "write_srt ?F (Yield (seg 0 1 (ustr ''hello'')) Stop) (ustr ''a.mp4'') (Finite 1 0) world0 =
      (Inl (OSError (ustr ''No space left on device'')),
       open_file (splitext_root (ustr ''a.mp4'') @ ustr ''.srt'')
         (emit (Log_progress (Finite 1 0) (Finite 1 0) (ustr ''a.mp4'')) world0))"
    using subtitle_written_once_or_not_at_all
            [OF runC, of ?F, THEN conjunct2, THEN conjunct2, THEN conjunct2, THEN conjunct2,
             THEN mp, OF conjI [OF nc conjI [OF oc]], THEN conjunct1] .
  then have C: "write_srt ?F (Yield (seg 0 1 (ustr ''hello'')) Stop) (ustr ''a.mp4'') (Finite 1 0) world0 =
       (Inl (OSError (ustr ''No space left on device'')),
        \<lparr>files = {ustr ''a.srt''},
         trace = [Log_progress (Finite 1 0) (Finite 1 0) (ustr ''a.mp4''),
                  File_opened (ustr ''a.srt'')]\<rparr>)"
    by (simp add: splitext_a_mp4 open_file_def emit_def world0_def)
  from A B C show ?thesis by simp
qed

subsection \<open>The per-file processor and the batch\<close>

lemma convert_to_wav_no_write:
  "convert_to_wav e f w = (r, w') \<Longrightarrow> filter is_write (trace w') = filter is_write (trace w)"
  by (auto simp: convert_to_wav_def create_file_def emit_def is_write_def Let_def
      split: sum.splits if_splits)

lemma write_srt_error_no_write:
  assumes "write_srt e g f d w = (Inl x, w')"
  shows "filter is_write (trace w') = filter is_write (trace w)"
proof -
  obtain r w1 where l: "srt_loop f d g [] w = (r, w1)"
    by (cases "srt_loop f d g [] w")
  from srt_loop_no_write [OF l] have "filter is_write (trace w1) = filter is_write (trace w)"
    by simp
  with assms l show ?thesis
    by (auto simp: write_srt_def Let_def open_file_def emit_def is_write_def
        split: sum.splits if_splits option.splits)
qed

lemma try_block_error_no_write:
  assumes "try_block e f m l w = (Inl x, wav, w')"
  shows "filter is_write (trace w') = filter is_write (trace w)"
proof -
  have p: "filter is_write (trace (emit (Log_processing f) w)) = filter is_write (trace w)"
    by (simp add: emit_def is_write_def)
  obtain r w2 where c: "convert_to_wav e f (emit (Log_processing f) w) = (r, w2)"
    by (cases "convert_to_wav e f (emit (Log_processing f) w)")
  from convert_to_wav_no_write [OF c] p
  have w2: "filter is_write (trace w2) = filter is_write (trace w)"
    by simp
  from assms c w2 show ?thesis
    by (auto simp: try_block_def Let_def split: sum.splits prod.splits
        dest: write_srt_error_no_write)
qed

lemma finally_clause_no_write:
  "filter is_write (trace (finally_clause wav w)) = filter is_write (trace w)"
  by (simp add: finally_clause_def os_remove_def emit_def is_write_def split: option.splits)

lemma finally_clause_trace:
  "set (trace w) \<subseteq> set (trace (finally_clause wav w))"
  by (auto simp: finally_clause_def os_remove_def emit_def split: option.splits)

lemma finally_clause_removes:
  "p \<noteq> [] \<Longrightarrow> p \<notin> files (finally_clause (Some p) w)"
  by (simp add: finally_clause_def os_remove_def emit_def)

lemma process_file_returns: "fst (process_file e f m l w) = Inr ()"
  by (simp add: process_file_def except_clause_def split: prod.splits sum.splits)

lemma process_file_world:
  "try_block e f m l w = (r, wav, w1) \<Longrightarrow>
   snd (process_file e f m l w) =
     finally_clause wav (case r of Inl x \<Rightarrow> emit (Log_error f x) w1 | Inr u \<Rightarrow> w1)"
  by (simp add: process_file_def except_clause_def split: sum.splits)

lemma batch_fold:
  "batch e fs m l w = (Inr (), foldl (\<lambda>w' f. snd (process_file e f m l w')) w fs)"
proof (induction fs arbitrary: w)
  case Nil
  then show ?case by simp
next
  case (Cons f fs)
  obtain w1 where "process_file e f m l w = (Inr (), w1)"
    using process_file_returns [of e f m l w] by (cases "process_file e f m l w") auto
  with Cons show ?case by simp
qed


lemmas run_eval = process_file_def try_block_def except_clause_def finally_clause_def
  convert_to_wav_def write_srt_def stub_env_def stub_model_def world0_def emit_def
  create_file_def open_file_def write_file_def os_remove_def whisper_args_def
  transcribe_args_def Let_def


text \<open>
  C1 does not hold on the transcode-failure path. \<open>convert_to_wav\<close> creates the
  temporary file and raises when ffmpeg does not answer \<^verbatim>\<open>ok\<close>; \<open>wav_file\<close> of
  \<open>process_file\<close> is then still \<open>None\<close>, so the \<^verbatim>\<open>finally\<close> clause removes
  nothing and the file stays.
\<close>

theorem temp_file_left_after_ffmpeg_failure:
  "process_file (stub_env (Inr (ustr ''Invalid data'')) (Inr (Stop, 1)))
     (ustr ''a.mp4'') (ustr ''base'') (ustr ''en'') world0 =
   (Inr (),
    \<lparr>files = {ustr ''/tmp/tmpa1.wav''},
     trace = [Log_processing (ustr ''a.mp4''), File_created (ustr ''/tmp/tmpa1.wav''),
              Log_error (ustr ''a.mp4'') (RuntimeError (ustr ''FFmpeg error: Invalid data''))]\<rparr>)"
  by (simp add: run_eval ustr_def)

text \<open>
  Once \<open>convert_to_wav\<close> has returned, the temporary file is gone when
  \<open>process_file\<close> ends, whatever recognition and writing do.
\<close>

lemma temp_file_removed_after_conversion:
  assumes "parse_ini e = Inr sets" "whisper_model e (whisper_args e sets m) = Inr model"
    and "convert_to_wav e f (emit (Log_processing f) w) = (Inr p, w2)" and "p \<noteq> []"
  shows "p \<notin> files (snd (process_file e f m l w))"
proof -
  from assms(1-3) have "\<exists>r w3. try_block e f m l w = (r, Some p, w3)"
    by (simp add: try_block_def Let_def split: sum.splits prod.splits)
  then obtain r w3 where "try_block e f m l w = (r, Some p, w3)"
    by blast
  from process_file_world [OF this] finally_clause_removes [OF assms(4)] show ?thesis
    by simp
qed

subsection \<open>Arguments of the recognition call\<close>

text \<open>
  C8: the recognition call gets no language when the requested language is
  \<^verbatim>\<open>auto\<close> and the requested language otherwise; it gets the configured
  \<^verbatim>\<open>initial_prompt_zh\<close> when the requested language is \<^verbatim>\<open>zh\<close> and no prompt
  for any other language. These are the arguments the \<^verbatim>\<open>try\<close> block calls the
  recogniser with.
\<close>

theorem language_and_prompt_arguments:
  "language (transcribe_args sets l) = (if l = ustr ''auto'' then None else Some l)
   \<and> initial_prompt (transcribe_args sets l) =
       (if l = ustr ''zh'' then sets (ustr ''initial_prompt_zh'') else None)
   \<and> (l \<noteq> ustr ''zh'' \<longrightarrow> initial_prompt (transcribe_args sets l) = None)
   \<and> (parse_ini e = Inr sets \<and> whisper_model e (whisper_args e sets m) = Inr model
        \<and> convert_to_wav e f (emit (Log_processing f) w) = (Inr wav, w2) \<longrightarrow>
        try_block e f m l w =
          (case model wav (transcribe_args sets l) of
             Inl x \<Rightarrow> (Inl x, Some wav, w2)
           | Inr (g, d) \<Rightarrow> (case write_srt e g f d w2 of (r, w3) \<Rightarrow> (r, Some wav, w3))))"
  by (simp add: transcribe_args_def try_block_def Let_def)

theorem language_and_prompt_arguments_witness:
  "language (transcribe_args Map.empty (ustr ''auto'')) = None
   \<and> initial_prompt (transcribe_args Map.empty (ustr ''auto'')) = None
   \<and> language (transcribe_args [ustr ''initial_prompt_zh'' \<mapsto> CStr [0x4EE5, 0x4E0B]] (ustr ''zh''))
       = Some (ustr ''zh'')
   \<and> initial_prompt (transcribe_args [ustr ''initial_prompt_zh'' \<mapsto> CStr [0x4EE5, 0x4E0B]] (ustr ''zh''))
       = Some (CStr [0x4EE5, 0x4E0B])
   \<and> ustr ''en'' \<noteq> ustr ''zh''
   \<and> initial_prompt (transcribe_args [ustr ''initial_prompt_zh'' \<mapsto> CStr [0x4EE5, 0x4E0B]] (ustr ''en''))
       = None
   \<and> try_block (stub_env (Inr (ustr ''ok'')) (Inr (Stop, 1))) (ustr ''a.mp4'') (ustr ''base'')
         (ustr ''en'') world0 =
       (Inr (), Some (ustr ''/tmp/tmpa1.wav''),
        \<lparr>files = {ustr ''/tmp/tmpa1.wav''},
         trace = [Log_processing (ustr ''a.mp4''), File_created (ustr ''/tmp/tmpa1.wav''),
                  Log_no_valid_segments (ustr ''a.mp4'')]\<rparr>)"
proof -
  let ?E = "stub_env (Inr (ustr ''ok'')) (Inr (Stop, 1))"
  let ?zh = "[ustr ''initial_prompt_zh'' \<mapsto> CStr [0x4EE5, 0x4E0B]]"
  let ?w2 = "\<lparr>files = {ustr ''/tmp/tmpa1.wav''},
     trace = [Log_processing (ustr ''a.mp4''), File_created (ustr ''/tmp/tmpa1.wav'')]\<rparr>"
  have h: "parse_ini ?E = Inr Map.empty
      \<and> whisper_model ?E (whisper_args ?E Map.empty (ustr ''base'')) = Inr (stub_model (Inr (Stop, 1)))
      \<and> convert_to_wav ?E (ustr ''a.mp4'') (emit (Log_processing (ustr ''a.mp4'')) world0) =
             (Inr (ustr ''/tmp/tmpa1.wav''), ?w2)"
    by (simp add: convert_to_wav_def stub_env_def world0_def emit_def create_file_def Let_def)
  have "try_block ?E (ustr ''a.mp4'') (ustr ''base'') (ustr ''en'') world0 =
       (Inr (), Some (ustr ''/tmp/tmpa1.wav''),
        \<lparr>files = {ustr ''/tmp/tmpa1.wav''},
         trace = [Log_processing (ustr ''a.mp4''), File_created (ustr ''/tmp/tmpa1.wav''),
                  Log_no_valid_segments (ustr ''a.mp4'')]\<rparr>)"
    using language_and_prompt_arguments
            [of Map.empty "ustr ''en''" ?E "ustr ''base''" "stub_model (Inr (Stop, 1))"
                "ustr ''a.mp4''" world0 "ustr ''/tmp/tmpa1.wav''" ?w2,
             THEN conjunct2, THEN conjunct2, THEN conjunct2, THEN mp, OF h]
    by (simp add: write_srt_def emit_def stub_model_def)
  then show ?thesis
    using language_and_prompt_arguments [of Map.empty "ustr ''auto''"]
      language_and_prompt_arguments [of ?zh "ustr ''zh''"]
      language_and_prompt_arguments [of ?zh "ustr ''en''"]
    by (simp add: ustr_def)
qed

subsection \<open>The command line\<close>

text \<open>
  C9: with fewer than two arguments (indeed with fewer than three: model, language and
  at least one file) \<open>main\<close> prints the usage message and exits with code 1, having
  done nothing else; with three or more it returns normally, having run
  \<open>process_file\<close> on each file in order.
\<close>

theorem usage_error_or_success:
  "(length args < 2 \<longrightarrow> main e args w = (SystemExit 1, emit Print_usage w))
   \<and> (length args < 3 \<longrightarrow> main e args w = (SystemExit 1, emit Print_usage w))
   \<and> (3 \<le> length args \<longrightarrow>
        main e args w =
          (Returned, foldl (\<lambda>w' f. snd (process_file e f (args ! 0) (args ! 1) w')) w (drop 2 args)))"
  by (simp add: main_def batch_fold)

theorem usage_error_or_success_witness:
  "length [ustr ''base''] < 2
   \<and> main (stub_env (Inr (ustr ''ok'')) (Inr (Stop, 1))) [ustr ''base''] world0 =
       (SystemExit 1, \<lparr>files = {}, trace = [Print_usage]\<rparr>)
   \<and> length [ustr ''base'', ustr ''en''] < 3
   \<and> main (stub_env (Inr (ustr ''ok'')) (Inr (Stop, 1))) [ustr ''base'', ustr ''en''] world0 =
       (SystemExit 1, \<lparr>files = {}, trace = [Print_usage]\<rparr>)
   \<and> 3 \<le> length [ustr ''base'', ustr ''en'', ustr ''a.mp4'']
   \<and> fst (main (stub_env (Inr (ustr ''ok'')) (Inr (Stop, 1)))
            [ustr ''base'', ustr ''en'', ustr ''a.mp4''] world0) = Returned"
  using usage_error_or_success [of "[ustr ''base'']" "stub_env (Inr (ustr ''ok'')) (Inr (Stop, 1))" world0]
    usage_error_or_success [of "[ustr ''base'', ustr ''en'']" "stub_env (Inr (ustr ''ok'')) (Inr (Stop, 1))" world0]
    usage_error_or_success [of "[ustr ''base'', ustr ''en'', ustr ''a.mp4'']" "stub_env (Inr (ustr ''ok'')) (Inr (Stop, 1))" world0]
  by (simp add: emit_def world0_def)

subsection \<open>A total duration of zero\<close>

text \<open>
  C10: when the recogniser reports a total duration of 0 and yields a segment, the
  progress computation raises \<open>ZeroDivisionError\<close> at the first segment:
  \<open>process_file\<close> logs the error, writes no subtitle file, still removes the
  temporary file, and returns normally, so that the batch goes on with the next file.
\<close>

theorem zero_duration_takes_error_branch:
  assumes "parse_ini e = Inr sets" and "whisper_model e (whisper_args e sets m) = Inr model"
    and "convert_to_wav e f (emit (Log_processing f) w) = (Inr wav, w2)"
    and "model wav (transcribe_args sets l) = Inr (Yield s rest, d)" and "is_zero d"
  shows "process_file e f m l w =
           (Inr (), finally_clause (Some wav) (emit (Log_error f ZeroDivisionError) w2))
    \<and> Log_error f ZeroDivisionError \<in> set (trace (snd (process_file e f m l w)))
    \<and> filter is_write (trace (snd (process_file e f m l w))) = filter is_write (trace w)
    \<and> (wav \<noteq> [] \<longrightarrow> files (snd (process_file e f m l w)) = files w2 - {wav})
    \<and> batch e (f # fs) m l w = batch e fs m l (snd (process_file e f m l w))"
proof -
  from assms have t: "try_block e f m l w = (Inl ZeroDivisionError, Some wav, w2)"
    by (simp add: try_block_def write_srt_def Let_def)
  then have p: "process_file e f m l w =
           (Inr (), finally_clause (Some wav) (emit (Log_error f ZeroDivisionError) w2))"
    by (simp add: process_file_def except_clause_def)
  have "Log_error f ZeroDivisionError \<in> set (trace (emit (Log_error f ZeroDivisionError) w2))"
    by (simp add: emit_def)
  then have a: "Log_error f ZeroDivisionError \<in> set (trace (snd (process_file e f m l w)))"
    using finally_clause_trace p by fastforce
  have b: "filter is_write (trace (snd (process_file e f m l w))) = filter is_write (trace w)"
    using try_block_error_no_write [OF t]
    by (simp add: p finally_clause_no_write emit_def is_write_def)
  have c: "files (snd (process_file e f m l w)) = files w2 - {wav}" if "wav \<noteq> []"
    using that by (auto simp: p finally_clause_def os_remove_def emit_def)
  from p have d: "batch e (f # fs) m l w = batch e fs m l (snd (process_file e f m l w))"
    by simp
  from p a b c d show ?thesis by blast
qed

theorem zero_duration_takes_error_branch_witness:
  "process_file (stub_env (Inr (ustr ''ok'')) (Inr (Yield (seg 0 1 (ustr ''hello'')) Stop, 0)))
     (ustr ''a.mp4'') (ustr ''base'') (ustr ''en'') world0 =
   (Inr (),
    \<lparr>files = {},
     trace = [Log_processing (ustr ''a.mp4''), File_created (ustr ''/tmp/tmpa1.wav''),
              Log_error (ustr ''a.mp4'') ZeroDivisionError,
              File_removed (ustr ''/tmp/tmpa1.wav''), Log_deleted (ustr ''/tmp/tmpa1.wav'')]\<rparr>)"
proof -
  let ?tr = "Inr (Yield (seg 0 1 (ustr ''hello'')) Stop, 0) :: exn + segment gen \<times> int"
  let ?E = "stub_env (Inr (ustr ''ok'')) ?tr"
  let ?w2 = "\<lparr>files = {ustr ''/tmp/tmpa1.wav''},
     trace = [Log_processing (ustr ''a.mp4''), File_created (ustr ''/tmp/tmpa1.wav'')]\<rparr>"
  have 1: "parse_ini ?E = Inr Map.empty"
    by (simp add: stub_env_def)
  have 2: "whisper_model ?E (whisper_args ?E Map.empty (ustr ''base'')) = Inr (stub_model ?tr)"
    by (simp add: stub_env_def)
  have 3: "convert_to_wav ?E (ustr ''a.mp4'') (emit (Log_processing (ustr ''a.mp4'')) world0) =
             (Inr (ustr ''/tmp/tmpa1.wav''), ?w2)"
    by (simp add: convert_to_wav_def stub_env_def world0_def emit_def create_file_def Let_def)
  have 4: "stub_model ?tr (ustr ''/tmp/tmpa1.wav'') (transcribe_args Map.empty (ustr ''en'')) =
           Inr (Yield (seg 0 1 (ustr ''hello'')) Stop, Finite 0 0)"
    by (simp add: stub_model_def)
  have 5: "is_zero (Finite 0 0)"
    by (simp add: is_zero_def)
  from zero_duration_takes_error_branch [OF 1 2 3 4 5, THEN conjunct1]
  show ?thesis
    by (simp add: finally_clause_def os_remove_def emit_def ustr_def)
qed

end
